theory Spec2Isabelle
  imports Complex_Main
begin

text \<open>
  A shallow embedding of the medical readability analyzer: the source
  classifier, the content extractor and validator, the readability scorer, the
  preparation of an uploaded table and the statistical comparison. Each
  function of the Python source is a HOL function of the same name. Calls into
  libraries (urllib, html and re, textstat, scipy, requests) are parameters
  that return a value or raise; an exception is a value of a sum type. The
  definitions come first, the properties after them.
\<close>

section \<open>Configuration (config.py)\<close>

text \<open>
  The module \<^verbatim>\<open>config\<close> is a set of global constants. The functions below take
  them as a record, so that every property is proved for any configuration;
  \<open>default_config\<close> holds the values written in config.py.
\<close>

record config =
  INSTITUTIONAL_DOMAINS :: "string list"
  INSTITUTIONAL_PATTERNS :: "string list"
  INSTITUTIONAL_KEYWORDS :: "string list"
  CONFIDENCE_THRESHOLD :: int
  MIN_WORD_COUNT :: int
  MAX_WORD_COUNT :: int
  SIGNIFICANCE_LEVEL :: real

definition default_config :: config where
  "default_config = \<lparr>
     INSTITUTIONAL_DOMAINS =
       [''.gov'', ''.gov.uk'', ''.gov.au'', ''.gov.ca'',
        ''.edu'', ''.ac.uk'', ''.ac.au'', ''.edu.au'',
        ''.nhs.uk'', ''.nhs.net'',
        ''who.int'', ''cdc.gov'', ''nih.gov'',
        ''mayoclinic.org'', ''clevelandclinic.org'',
        ''hopkinsmedicine.org'', ''webmd.com'',
        ''healthline.com'', ''medlineplus.gov''],
     INSTITUTIONAL_PATTERNS =
       [''/government/'', ''/health/official/'',
        ''/public-health/'', ''/medical-center/'',
        ''university'', ''college'', ''hospital''],
     INSTITUTIONAL_KEYWORDS =
       [''National Institutes'', ''Centers for Disease'',
        ''National Health Service'', ''Mayo Clinic'',
        ''Cleveland Clinic'', ''Johns Hopkins'',
        ''CDC'', ''NIH'', ''NHS'', ''WHO''],
     CONFIDENCE_THRESHOLD = 3,
     MIN_WORD_COUNT = 50,
     MAX_WORD_COUNT = 50000,
     SIGNIFICANCE_LEVEL = 0.05 \<rparr>"

section \<open>Python strings\<close>

text \<open>
  A Python \<^verbatim>\<open>str\<close> is modelled as a \<open>string\<close> of ASCII characters. An exception
  is the value of its message, \<^verbatim>\<open>str(e)\<close>.
\<close>

type_synonym exn = string

text \<open>\<^verbatim>\<open>str.lower\<close>: the letters A to Z become a to z.\<close>

definition lower_char :: "char \<Rightarrow> char" where
  "lower_char c =
     (let n = (of_char c :: nat) in if 65 \<le> n \<and> n \<le> 90 then char_of (n + 32) else c)"

definition lower :: "string \<Rightarrow> string" where
  "lower s = map lower_char s"

text \<open>\<^verbatim>\<open>s.startswith(p)\<close>, \<^verbatim>\<open>s.endswith(p)\<close> and \<^verbatim>\<open>sub in s\<close>.\<close>

definition startswith :: "string \<Rightarrow> string \<Rightarrow> bool" where
  "startswith s p = (take (length p) s = p)"

definition endswith :: "string \<Rightarrow> string \<Rightarrow> bool" where
  "endswith s p = (length p \<le> length s \<and> drop (length s - length p) s = p)"

fun contains :: "string \<Rightarrow> string \<Rightarrow> bool" where
  "contains sub [] = (sub = [])"
| "contains sub (c # cs) = (startswith (c # cs) sub \<or> contains sub cs)"

text \<open>
  \<^verbatim>\<open>str.split()\<close> with no argument and \<^verbatim>\<open>str.strip()\<close>: the separators are the
  ASCII white space characters (tab, line feed, vertical tab, form feed,
  carriage return, the four separators 28 to 31 and the space).
\<close>

definition is_space :: "char \<Rightarrow> bool" where
  "is_space c = (let n = (of_char c :: nat) in (9 \<le> n \<and> n \<le> 13) \<or> (28 \<le> n \<and> n \<le> 32))"

fun split_from :: "string \<Rightarrow> string \<Rightarrow> string list" where
  "split_from [] cur = (if cur = [] then [] else [rev cur])"
| "split_from (c # cs) cur =
     (if is_space c
      then (if cur = [] then split_from cs [] else rev cur # split_from cs [])
      else split_from cs (c # cur))"

definition str_split :: "string \<Rightarrow> string list" where
  "str_split s = split_from s []"

definition strip :: "string \<Rightarrow> string" where
  "strip s = rev (dropWhile is_space (rev (dropWhile is_space s)))"

text \<open>\<^verbatim>\<open>sep.join(parts)\<close>.\<close>

fun join :: "string \<Rightarrow> string list \<Rightarrow> string" where
  "join sep [] = []"
| "join sep [p] = p"
| "join sep (p # q # ps) = p @ sep @ join sep (q # ps)"

text \<open>\<^verbatim>\<open>len(text.split())\<close>, the word count used throughout.\<close>

definition word_count :: "string \<Rightarrow> int" where
  "word_count text = int (length (str_split text))"

section \<open>Source classification (modules/classifier.py)\<close>

text \<open>
  \<^verbatim>\<open>extract_domain_from_url\<close>: the network location of the URL without a
  leading \<^verbatim>\<open>www.\<close>; the URL itself when parsing raises. The standard library's
  \<^verbatim>\<open>urlparse(url).netloc\<close> is the parameter \<open>netloc\<close>.
\<close>

definition extract_domain_from_url :: "(string \<Rightarrow> exn + string) \<Rightarrow> string \<Rightarrow> string" where
  "extract_domain_from_url netloc url =
     (case netloc url of
        Inl e \<Rightarrow> url
      | Inr domain \<Rightarrow> if startswith domain ''www.'' then drop 4 domain else domain)"

text \<open>
  The three evidence loops of \<^verbatim>\<open>classify_source\<close>. Each walks its list, adds its
  weight to the running confidence at the first entry that matches and breaks.
\<close>

fun domain_loop :: "string \<Rightarrow> string list \<Rightarrow> int \<Rightarrow> int" where
  "domain_loop domain_lower [] confidence = confidence"
| "domain_loop domain_lower (inst_domain # rest) confidence =
     (if endswith domain_lower inst_domain \<or> contains inst_domain domain_lower
      then confidence + 3
      else domain_loop domain_lower rest confidence)"

fun pattern_loop :: "string \<Rightarrow> string list \<Rightarrow> int \<Rightarrow> int" where
  "pattern_loop url_lower [] confidence = confidence"
| "pattern_loop url_lower (pattern # rest) confidence =
     (if contains (lower pattern) url_lower
      then confidence + 2
      else pattern_loop url_lower rest confidence)"

fun keyword_loop :: "string \<Rightarrow> string list \<Rightarrow> int \<Rightarrow> int" where
  "keyword_loop title_lower [] confidence = confidence"
| "keyword_loop title_lower (keyword # rest) confidence =
     (if contains (lower keyword) title_lower
      then confidence + 1
      else keyword_loop title_lower rest confidence)"

definition classify_source ::
  "config \<Rightarrow> (string \<Rightarrow> exn + string) \<Rightarrow> string \<Rightarrow> string \<Rightarrow> string \<Rightarrow> string \<times> int" where
  "classify_source cfg netloc url page_title domain0 =
     (let domain = (if domain0 = [] then extract_domain_from_url netloc url else domain0);
          url_lower = lower url;
          domain_lower = lower domain;
          title_lower = (if page_title \<noteq> [] then lower page_title else []);
          confidence1 = domain_loop domain_lower (INSTITUTIONAL_DOMAINS cfg) 0;
          confidence2 = pattern_loop url_lower (INSTITUTIONAL_PATTERNS cfg) confidence1;
          confidence3 = (if title_lower \<noteq> []
                         then keyword_loop title_lower (INSTITUTIONAL_KEYWORDS cfg) confidence2
                         else confidence2);
          classification = (if confidence3 \<ge> CONFIDENCE_THRESHOLD cfg
                            then ''Institutional'' else ''Private'')
      in (classification, confidence3))"

text \<open>
  The evidence tiers in the words of the specification: a tier matches when
  some entry of its list matches, however many do.
\<close>

definition domain_tier :: "config \<Rightarrow> (string \<Rightarrow> exn + string) \<Rightarrow> string \<Rightarrow> string \<Rightarrow> bool" where
  "domain_tier cfg netloc url domain0 =
     (let d = lower (if domain0 = [] then extract_domain_from_url netloc url else domain0)
      in list_ex (\<lambda>inst. endswith d inst \<or> contains inst d) (INSTITUTIONAL_DOMAINS cfg))"

definition pattern_tier :: "config \<Rightarrow> string \<Rightarrow> bool" where
  "pattern_tier cfg url =
     list_ex (\<lambda>pattern. contains (lower pattern) (lower url)) (INSTITUTIONAL_PATTERNS cfg)"

definition keyword_tier :: "config \<Rightarrow> string \<Rightarrow> bool" where
  "keyword_tier cfg page_title =
     (page_title \<noteq> [] \<and>
      list_ex (\<lambda>keyword. contains (lower keyword) (lower page_title)) (INSTITUTIONAL_KEYWORDS cfg))"

text \<open>
  A classified record, the dictionary that \<^verbatim>\<open>batch_classify\<close> fills. A key that
  is absent is \<open>None\<close>.
\<close>

record url_data =
  url :: "string option"
  title :: "string option"
  domain :: "string option"
  source_type :: "string option"
  classification_confidence :: "int option"

record ambiguous =
  amb_url :: "string option"
  amb_domain :: string
  amb_classification :: "string option"
  amb_confidence :: int

text \<open>\<^verbatim>\<open>data.get('classification_confidence', 0)\<close>.\<close>

definition recorded_confidence :: "url_data \<Rightarrow> int" where
  "recorded_confidence data = (case classification_confidence data of None \<Rightarrow> 0 | Some c \<Rightarrow> c)"

definition ambiguous_entry :: "(string \<Rightarrow> exn + string) \<Rightarrow> url_data \<Rightarrow> ambiguous" where
  "ambiguous_entry netloc data =
     \<lparr> amb_url = url data,
       amb_domain = (case domain data of
                       Some d \<Rightarrow> d
                     | None \<Rightarrow> extract_domain_from_url netloc
                                 (case url data of None \<Rightarrow> [] | Some u \<Rightarrow> u)),
       amb_classification = source_type data,
       amb_confidence = recorded_confidence data \<rparr>"

fun get_ambiguous_classifications ::
  "(string \<Rightarrow> exn + string) \<Rightarrow> url_data list \<Rightarrow> int \<Rightarrow> ambiguous list" where
  "get_ambiguous_classifications netloc [] threshold = []"
| "get_ambiguous_classifications netloc (data # rest) threshold =
     (let confidence = recorded_confidence data in
      if confidence \<le> threshold \<and> confidence > 0
      then ambiguous_entry netloc data # get_ambiguous_classifications netloc rest threshold
      else get_ambiguous_classifications netloc rest threshold)"

text \<open>The default of the parameter \<^verbatim>\<open>threshold\<close>.\<close>

definition default_ambiguity_threshold :: int where
  "default_ambiguity_threshold = 2"

text \<open>A stand-in for \<^verbatim>\<open>urlparse\<close> on inputs whose domain is given: it finds no network location.\<close>

definition no_netloc :: "string \<Rightarrow> exn + string" where
  "no_netloc u = Inr []"

section \<open>Web scraping (modules/scraper.py)\<close>

subsection \<open>The parsed document\<close>

text \<open>
  The tree that BeautifulSoup builds: a text node, or a tag with its name, the
  tokens of its \<^verbatim>\<open>class\<close> attribute, its \<^verbatim>\<open>id\<close> attribute if it has one and its
  children. The document is the list of its top-level nodes.
\<close>

datatype node = Text string | Tag string "string list" "string option" "node list"

type_synonym soup = "node list"

text \<open>
  \<^verbatim>\<open>for element in soup([...]): element.decompose()\<close>: every element with one of
  the names goes, with all that it holds.
\<close>

definition unwanted :: "string list" where
  "unwanted = [''script'', ''style'', ''nav'', ''header'', ''footer'',
               ''aside'', ''iframe'', ''noscript'']"

fun decompose_unwanted :: "node list \<Rightarrow> node list" where
  "decompose_unwanted [] = []"
| "decompose_unwanted (Text s # rest) = Text s # decompose_unwanted rest"
| "decompose_unwanted (Tag name classes ident children # rest) =
     (if name \<in> set unwanted then decompose_unwanted rest
      else Tag name classes ident (decompose_unwanted children) # decompose_unwanted rest)"

text \<open>The elements below a list of nodes, in document order, as \<^verbatim>\<open>find_all\<close> walks them.\<close>

fun elements :: "node list \<Rightarrow> node list" where
  "elements [] = []"
| "elements (Text s # rest) = elements rest"
| "elements (Tag name classes ident children # rest) =
     Tag name classes ident children # elements children @ elements rest"

text \<open>The text nodes below a list of nodes, in document order.\<close>

fun strings :: "node list \<Rightarrow> string list" where
  "strings [] = []"
| "strings (Text s # rest) = s # strings rest"
| "strings (Tag name classes ident children # rest) = strings children @ strings rest"

fun children_of :: "node \<Rightarrow> node list" where
  "children_of (Text s) = []"
| "children_of (Tag name classes ident children) = children"

fun has_name :: "string \<Rightarrow> node \<Rightarrow> bool" where
  "has_name n (Text s) = False"
| "has_name n (Tag name classes ident children) = (name = n)"

text \<open>
  A compiled pattern \<^verbatim>\<open>re.compile(indicator, re.I)\<close> for a class or an id: the
  indicators are plain lower-case words, so the search succeeds when the
  attribute, in lower case, contains the indicator. A \<^verbatim>\<open>class\<close> attribute
  matches when one of its tokens does.
\<close>

fun class_matches :: "string \<Rightarrow> node \<Rightarrow> bool" where
  "class_matches indicator (Text s) = False"
| "class_matches indicator (Tag name classes ident children) =
     list_ex (\<lambda>c. contains indicator (lower c)) classes"

fun id_matches :: "string \<Rightarrow> node \<Rightarrow> bool" where
  "id_matches indicator (Text s) = False"
| "id_matches indicator (Tag name classes ident children) =
     (case ident of None \<Rightarrow> False | Some i \<Rightarrow> contains indicator (lower i))"

text \<open>\<^verbatim>\<open>tag.find(...)\<close> is the first element that matches, \<^verbatim>\<open>tag.find_all(...)\<close> all of them.\<close>

definition find_first :: "(node \<Rightarrow> bool) \<Rightarrow> node list \<Rightarrow> node option" where
  "find_first P nodes = List.find P (elements nodes)"

definition find_all :: "(node \<Rightarrow> bool) \<Rightarrow> node list \<Rightarrow> node list" where
  "find_all P nodes = filter P (elements nodes)"

text \<open>
  \<^verbatim>\<open>tag.get_text(separator=sep, strip=True)\<close>: the text nodes below the tag, each
  stripped, the empty ones dropped, joined by the separator.
\<close>

definition get_text :: "string \<Rightarrow> node \<Rightarrow> string" where
  "get_text sep tag =
     join sep (filter (\<lambda>s. s \<noteq> []) (map strip (strings (children_of tag))))"

subsection \<open>The extraction cascade\<close>

definition content_indicators :: "string list" where
  "content_indicators = [''content'', ''article'', ''post'', ''entry'', ''text'',
                         ''main'', ''body'', ''story'', ''page-content'']"

text \<open>The test each of the first four strategies makes: \<^verbatim>\<open>len(text.split()) > config.MIN_WORD_COUNT\<close>.\<close>

definition long_enough :: "config \<Rightarrow> string \<Rightarrow> bool" where
  "long_enough cfg text = (word_count text > MIN_WORD_COUNT cfg)"

text \<open>Strategy 3, the loop over the elements that a class pattern found.\<close>

fun class_loop :: "config \<Rightarrow> node list \<Rightarrow> string option" where
  "class_loop cfg [] = None"
| "class_loop cfg (elem # rest) =
     (let text = get_text '' '' elem in
      if long_enough cfg text then Some text else class_loop cfg rest)"

text \<open>Strategy 3, the loop over the indicators: as a class first, then as an id.\<close>

fun indicator_loop :: "config \<Rightarrow> soup \<Rightarrow> string list \<Rightarrow> string option" where
  "indicator_loop cfg soup [] = None"
| "indicator_loop cfg soup (indicator # rest) =
     (case class_loop cfg (find_all (class_matches indicator) soup) of
        Some text \<Rightarrow> Some text
      | None \<Rightarrow>
         (case find_first (id_matches indicator) soup of
            None \<Rightarrow> indicator_loop cfg soup rest
          | Some elem \<Rightarrow>
             (let text = get_text '' '' elem in
              if long_enough cfg text then Some text else indicator_loop cfg soup rest)))"

text \<open>Strategy 4: the paragraphs of the body, each with \<^verbatim>\<open>get_text(strip=True)\<close>, joined by spaces.\<close>

definition paragraph_text :: "node \<Rightarrow> string option" where
  "paragraph_text body =
     (let paragraphs = find_all (has_name ''p'') (children_of body) in
      if paragraphs \<noteq> [] then Some (join '' '' (map (get_text []) paragraphs)) else None)"

text \<open>Strategy 5: all the text of the body, \<^verbatim>\<open>text if text else None\<close>.\<close>

definition all_body_text :: "node \<Rightarrow> string option" where
  "all_body_text body = (let text = get_text '' '' body in if text \<noteq> [] then Some text else None)"

text \<open>
  \<^verbatim>\<open>extract_main_content\<close>. The result is the extracted text, or \<open>None\<close> for
  Python's \<^verbatim>\<open>None\<close>. A tag that \<^verbatim>\<open>find\<close> returns is true in a condition, so
  \<^verbatim>\<open>if article:\<close> asks whether one was found.
\<close>

definition extract_main_content :: "config \<Rightarrow> soup \<Rightarrow> string option" where
  "extract_main_content cfg soup0 =
     (let soup = decompose_unwanted soup0;
          article = find_first (has_name ''article'') soup;
          text1 = (case article of None \<Rightarrow> [] | Some a \<Rightarrow> get_text '' '' a)
      in if article \<noteq> None \<and> long_enough cfg text1 then Some text1
      else
       (let main = find_first (has_name ''main'') soup;
            text2 = (case main of None \<Rightarrow> [] | Some m \<Rightarrow> get_text '' '' m)
        in if main \<noteq> None \<and> long_enough cfg text2 then Some text2
        else
         (case indicator_loop cfg soup content_indicators of
            Some text3 \<Rightarrow> Some text3
          | None \<Rightarrow>
             (case find_first (has_name ''body'') soup of
                None \<Rightarrow> None
              | Some body \<Rightarrow>
                 (case paragraph_text body of
                    None \<Rightarrow> all_body_text body
                  | Some text4 \<Rightarrow>
                     if long_enough cfg text4 then Some text4 else all_body_text body)))))"

subsection \<open>Cleaning and validation\<close>

text \<open>
  \<^verbatim>\<open>clean_text\<close> chains library calls: \<^verbatim>\<open>html.unescape\<close> and four \<^verbatim>\<open>re.sub\<close>. The
  entity table and the three substitutions that delete URLs, e-mail addresses
  and characters outside the kept set are parameters; collapsing white space
  and stripping are written out.
\<close>

record textlib =
  html_unescape :: "string \<Rightarrow> string"
  remove_urls :: "string \<Rightarrow> string"
  remove_emails :: "string \<Rightarrow> string"
  remove_special :: "string \<Rightarrow> string"

text \<open>\<^verbatim>\<open>re.sub(r'\s+', ' ', text)\<close>: every run of white space becomes one space.\<close>

fun collapse_runs :: "bool \<Rightarrow> string \<Rightarrow> string" where
  "collapse_runs in_run [] = []"
| "collapse_runs in_run (c # cs) =
     (if is_space c
      then (if in_run then collapse_runs True cs else CHR '' '' # collapse_runs True cs)
      else c # collapse_runs False cs)"

definition normalize_whitespace :: "string \<Rightarrow> string" where
  "normalize_whitespace text = collapse_runs False text"

definition clean_text :: "textlib \<Rightarrow> string \<Rightarrow> string" where
  "clean_text lib raw_text =
     (if raw_text = [] then []
      else strip (remove_special lib (normalize_whitespace
                    (remove_emails lib (remove_urls lib (html_unescape lib raw_text))))))"

text \<open>
  The issues that \<^verbatim>\<open>validate_content\<close> reports, each message with the number it
  prints. The two checks on sentences and boilerplate only log a warning.
\<close>

datatype issue = Empty_text | Text_too_short int | Text_too_long int

definition validate_content :: "config \<Rightarrow> string \<Rightarrow> bool \<times> issue list" where
  "validate_content cfg text =
     (if text = [] then (False, [Empty_text])
      else
       (let wc = word_count text in
        if wc < MIN_WORD_COUNT cfg then (False, [Text_too_short wc])
        else if wc > MAX_WORD_COUNT cfg then (False, [Text_too_long wc])
        else (True, [])))"

subsection \<open>Scraping one page\<close>

text \<open>
  What \<^verbatim>\<open>requests.get\<close> and the parser give for a URL: one of the three kinds of
  exception that \<^verbatim>\<open>scrape_webpage\<close> tells apart, or a response with its status
  code and the parsed body (the parser may raise too).
\<close>

datatype fetched =
  Raised_Timeout
| Raised_RequestException exn
| Raised_Exception exn
| Response int "exn + soup"

datatype status =
  Success | Http_error int | Extraction_failed | Insufficient_text
| Timeout | Request_error | Error

datatype message = Http_msg int | Text_msg string | Issues_msg "issue list"

record scrape_result =
  res_url :: string
  res_content :: "string option"
  res_word_count :: int
  res_status :: status
  res_error_msg :: "message option"

definition scrape_webpage :: "config \<Rightarrow> textlib \<Rightarrow> (string \<Rightarrow> fetched) \<Rightarrow> string \<Rightarrow> scrape_result" where
  "scrape_webpage cfg lib fetch u =
     (let result = \<lparr> res_url = u, res_content = None, res_word_count = 0,
                      res_status = Success, res_error_msg = None \<rparr>
      in case fetch u of
           Raised_Timeout \<Rightarrow>
             result\<lparr> res_status := Timeout, res_error_msg := Some (Text_msg ''Request timeout'') \<rparr>
         | Raised_RequestException e \<Rightarrow>
             result\<lparr> res_status := Request_error, res_error_msg := Some (Text_msg e) \<rparr>
         | Raised_Exception e \<Rightarrow>
             result\<lparr> res_status := Error, res_error_msg := Some (Text_msg e) \<rparr>
         | Response status_code parsed \<Rightarrow>
             if status_code \<noteq> 200
             then result\<lparr> res_status := Http_error status_code,
                          res_error_msg := Some (Http_msg status_code) \<rparr>
             else
              (case parsed of
                 Inl e \<Rightarrow> result\<lparr> res_status := Error, res_error_msg := Some (Text_msg e) \<rparr>
               | Inr soup \<Rightarrow>
                  (case extract_main_content cfg soup of
                     None \<Rightarrow>
                       result\<lparr> res_status := Extraction_failed,
                               res_error_msg := Some (Text_msg ''Could not extract content'') \<rparr>
                   | Some content \<Rightarrow>
                       if content = []
                       then result\<lparr> res_status := Extraction_failed,
                                    res_error_msg := Some (Text_msg ''Could not extract content'') \<rparr>
                       else
                        (let cleaned_content = clean_text lib content;
                             (is_valid, issues) = validate_content cfg cleaned_content
                         in if \<not> is_valid
                            then result\<lparr> res_status := Insufficient_text,
                                         res_error_msg := Some (Issues_msg issues),
                                         res_content := Some cleaned_content,
                                         res_word_count := word_count cleaned_content \<rparr>
                            else result\<lparr> res_content := Some cleaned_content,
                                         res_word_count := word_count cleaned_content \<rparr>))))"

subsection \<open>The cascade as the specification words it\<close>

text \<open>
  The candidates that the first four strategies would examine, in the order of
  the specification: the article container, the main container, for each
  content indicator the elements whose class matches and then the first
  element whose id matches, and last the joined paragraphs of the body.
\<close>

definition article_candidates :: "soup \<Rightarrow> string list" where
  "article_candidates soup =
     (case find_first (has_name ''article'') soup of None \<Rightarrow> [] | Some a \<Rightarrow> [get_text '' '' a])"

definition main_candidates :: "soup \<Rightarrow> string list" where
  "main_candidates soup =
     (case find_first (has_name ''main'') soup of None \<Rightarrow> [] | Some m \<Rightarrow> [get_text '' '' m])"

definition indicator_candidates :: "soup \<Rightarrow> string \<Rightarrow> string list" where
  "indicator_candidates soup indicator =
     map (get_text '' '') (find_all (class_matches indicator) soup)
     @ (case find_first (id_matches indicator) soup of None \<Rightarrow> [] | Some e \<Rightarrow> [get_text '' '' e])"

definition paragraph_candidates :: "soup \<Rightarrow> string list" where
  "paragraph_candidates soup =
     (case find_first (has_name ''body'') soup of
        None \<Rightarrow> []
      | Some body \<Rightarrow> (case paragraph_text body of None \<Rightarrow> [] | Some t \<Rightarrow> [t]))"

definition cascade_candidates :: "soup \<Rightarrow> string list" where
  "cascade_candidates soup =
     article_candidates soup @ main_candidates soup
     @ concat (map (indicator_candidates soup) content_indicators)
     @ paragraph_candidates soup"

text \<open>The fallback: all the text under the body, whatever its length; nothing without a body.\<close>

definition fallback :: "soup \<Rightarrow> string option" where
  "fallback soup =
     (case find_first (has_name ''body'') soup of None \<Rightarrow> None | Some body \<Rightarrow> all_body_text body)"

subsection \<open>Example pages\<close>

text \<open>A text of \<open>n\<close> words, a library whose substitutions find nothing to change, and a server of one page.\<close>

definition words :: "nat \<Rightarrow> string" where
  "words n = join '' '' (replicate n ''word'')"

definition plain_textlib :: textlib where
  "plain_textlib = \<lparr> html_unescape = (\<lambda>s. s), remove_urls = (\<lambda>s. s),
                       remove_emails = (\<lambda>s. s), remove_special = (\<lambda>s. s) \<rparr>"

definition serve :: "soup \<Rightarrow> string \<Rightarrow> fetched" where
  "serve page u = Response 200 (Inr page)"

text \<open>An article of exactly 50 words beside a main container of 51.\<close>

definition boundary_page :: soup where
  "boundary_page =
     [Tag ''html'' [] None
        [Tag ''body'' [] None
           [Tag ''article'' [] None [Text (words 50)],
            Tag ''main'' [] None [Text (words 51)]]]]"

text \<open>The same page with a paragraph of 60 words after the main container.\<close>

definition boundary_page_with_paragraph :: soup where
  "boundary_page_with_paragraph =
     [Tag ''html'' [] None
        [Tag ''body'' [] None
           [Tag ''article'' [] None [Text (words 50)],
            Tag ''main'' [] None [Text (words 51)],
            Tag ''p'' [] None [Text (words 60)]]]]"

text \<open>Pages whose only text is a block of 49 and of 50 words.\<close>

definition page_of_49 :: soup where
  "page_of_49 = [Tag ''html'' [] None [Tag ''body'' [] None [Tag ''div'' [] None [Text (words 49)]]]]"

definition page_of_50 :: soup where
  "page_of_50 = [Tag ''html'' [] None [Tag ''body'' [] None [Tag ''div'' [] None [Text (words 50)]]]]"

section \<open>Floating point values\<close>

text \<open>
  A float is a real number or one of the three special values of IEEE
  arithmetic. Rounding is not modelled: a finite float is the real it stands
  for. The special values are kept because the code tests for them
  (\<^verbatim>\<open>pd.isna\<close>) and because numpy's division by zero yields them instead of
  raising.
\<close>

datatype npfloat = Fin real | PosInf | NegInf | NaN

text \<open>\<^verbatim>\<open>a < b\<close> on floats: false whenever one side is NaN.\<close>

fun np_less :: "npfloat \<Rightarrow> npfloat \<Rightarrow> bool" where
  "np_less (Fin a) (Fin b) = (a < b)"
| "np_less (Fin a) PosInf = True"
| "np_less (Fin a) NegInf = False"
| "np_less (Fin a) NaN = False"
| "np_less PosInf b = False"
| "np_less NegInf (Fin b) = True"
| "np_less NegInf PosInf = True"
| "np_less NegInf NegInf = False"
| "np_less NegInf NaN = False"
| "np_less NaN b = False"

text \<open>numpy's \<^verbatim>\<open>a / b\<close> on two finite floats, the divisor not negative zero.\<close>

definition np_div :: "real \<Rightarrow> real \<Rightarrow> npfloat" where
  "np_div a b =
     (if b \<noteq> 0 then Fin (a / b)
      else if a = 0 then NaN
      else if a > 0 then PosInf else NegInf)"

text \<open>\<^verbatim>\<open>1 - x\<close> on a float.\<close>

fun one_minus :: "npfloat \<Rightarrow> npfloat" where
  "one_minus (Fin x) = Fin (1 - x)"
| "one_minus PosInf = NegInf"
| "one_minus NegInf = PosInf"
| "one_minus NaN = NaN"

section \<open>Readability scores (modules/readability.py)\<close>

text \<open>
  The formulas belong to the library \<^verbatim>\<open>textstat\<close>: each is a parameter that
  returns a number or raises.
\<close>

record textstat =
  gunning_fog :: "string \<Rightarrow> exn + npfloat"
  smog_index :: "string \<Rightarrow> exn + npfloat"
  flesch_kincaid_grade :: "string \<Rightarrow> exn + npfloat"
  automated_readability_index :: "string \<Rightarrow> exn + npfloat"
  sentence_count :: "string \<Rightarrow> exn + int"
  syllable_count :: "string \<Rightarrow> exn + int"

record metrics =
  GFI :: "npfloat option"
  SMOG :: "npfloat option"
  FKG :: "npfloat option"
  ARI :: "npfloat option"
  m_word_count :: int
  m_sentence_count :: int
  m_syllable_count :: int
  mean_readability :: "npfloat option"

text \<open>
  The validation of one score:
  \<^verbatim>\<open>if pd.isna(value) or value < 0 or value > 30: metrics[key] = None\<close>.
\<close>

definition validate_score :: "npfloat \<Rightarrow> npfloat option" where
  "validate_score v =
     (if v = NaN \<or> np_less v (Fin 0) \<or> np_less (Fin 30) v then None else Some v)"

text \<open>\<^verbatim>\<open>valid_scores\<close>: the scores that are not \<^verbatim>\<open>None\<close>, in the order of the dictionary.\<close>

definition valid_scores :: "npfloat option list \<Rightarrow> npfloat list" where
  "valid_scores scores = concat (map (\<lambda>s. case s of None \<Rightarrow> [] | Some v \<Rightarrow> [v]) scores)"

text \<open>The real number of a float that passed validation.\<close>

fun real_of :: "npfloat \<Rightarrow> real" where
  "real_of (Fin x) = x"
| "real_of PosInf = 0"
| "real_of NegInf = 0"
| "real_of NaN = 0"

text \<open>\<^verbatim>\<open>np.mean\<close> of a non-empty list of finite floats.\<close>

definition np_mean :: "npfloat list \<Rightarrow> npfloat" where
  "np_mean vs = Fin (sum_list (map real_of vs) / real (length vs))"

text \<open>
  \<^verbatim>\<open>calculate_readability\<close>. The whole computation stands in a \<^verbatim>\<open>try\<close> whose
  handler returns \<^verbatim>\<open>None\<close>. After the mean is stored, the function logs it with
  \<^verbatim>\<open>f"...{metrics.get('mean_readability', 'N/A'):.1f}"\<close>; the key is present, so
  when the mean is \<^verbatim>\<open>None\<close> the format \<^verbatim>\<open>.1f\<close> is applied to \<^verbatim>\<open>None\<close>, which raises
  TypeError inside the \<^verbatim>\<open>try\<close>.
\<close>

definition calculate_readability :: "config \<Rightarrow> textstat \<Rightarrow> string \<Rightarrow> metrics option" where
  "calculate_readability cfg lib text =
     (if text = [] then None
      else if word_count text < MIN_WORD_COUNT cfg then None
      else
       (case gunning_fog lib text of Inl e \<Rightarrow> None | Inr gfi \<Rightarrow>
        case smog_index lib text of Inl e \<Rightarrow> None | Inr smog \<Rightarrow>
        case flesch_kincaid_grade lib text of Inl e \<Rightarrow> None | Inr fkg \<Rightarrow>
        case automated_readability_index lib text of Inl e \<Rightarrow> None | Inr ari \<Rightarrow>
        case sentence_count lib text of Inl e \<Rightarrow> None | Inr sentences \<Rightarrow>
        case syllable_count lib text of Inl e \<Rightarrow> None | Inr syllables \<Rightarrow>
         (let scores = [validate_score gfi, validate_score smog,
                        validate_score fkg, validate_score ari];
              valid = valid_scores scores
          in if valid \<noteq> []
             then Some \<lparr> GFI = validate_score gfi, SMOG = validate_score smog,
                         FKG = validate_score fkg, ARI = validate_score ari,
                         m_word_count = word_count text, m_sentence_count = sentences,
                         m_syllable_count = syllables,
                         mean_readability = Some (np_mean valid) \<rparr>
             else None)))"

text \<open>
  A library whose four formulas all give grade 35, as for three sentences of
  eighty long words each, and one whose formulas give 12, 35, 9 and NaN.
\<close>

definition textstat_all_high :: textstat where
  "textstat_all_high =
     \<lparr> gunning_fog = (\<lambda>t. Inr (Fin 35)), smog_index = (\<lambda>t. Inr (Fin 35)),
       flesch_kincaid_grade = (\<lambda>t. Inr (Fin 35)),
       automated_readability_index = (\<lambda>t. Inr (Fin 35)),
       sentence_count = (\<lambda>t. Inr 3), syllable_count = (\<lambda>t. Inr 960) \<rparr>"

definition textstat_mixed :: textstat where
  "textstat_mixed =
     \<lparr> gunning_fog = (\<lambda>t. Inr (Fin 12)), smog_index = (\<lambda>t. Inr (Fin 35)),
       flesch_kincaid_grade = (\<lambda>t. Inr (Fin 9)),
       automated_readability_index = (\<lambda>t. Inr NaN),
       sentence_count = (\<lambda>t. Inr 12), syllable_count = (\<lambda>t. Inr 400) \<rparr>"

section \<open>Tables (pandas)\<close>

text \<open>
  A DataFrame is its named columns. The tables modelled are those in which the
  columns that the code treats as numbers (the rank, the four scores and
  \<^verbatim>\<open>mean_readability\<close>) are columns of floats, a missing value (NaN) being
  \<open>None\<close>, and \<^verbatim>\<open>url\<close>, \<^verbatim>\<open>domain\<close> and \<^verbatim>\<open>source_type\<close> are columns of strings. The
  validator of uploaded files admits no score column that holds text, since
  its range comparison raises on one.
\<close>

record dataframe =
  float_cols :: "(string \<times> real option list) list"
  text_cols :: "(string \<times> string option list) list"

definition columns :: "dataframe \<Rightarrow> string list" where
  "columns df = map fst (float_cols df) @ map fst (text_cols df)"

definition float_col :: "dataframe \<Rightarrow> string \<Rightarrow> real option list option" where
  "float_col df name = map_of (float_cols df) name"

definition text_col :: "dataframe \<Rightarrow> string \<Rightarrow> string option list option" where
  "text_col df name = map_of (text_cols df) name"

text \<open>\<^verbatim>\<open>series.dropna()\<close> on a column of floats.\<close>

definition dropna :: "real option list \<Rightarrow> real list" where
  "dropna cells = concat (map (\<lambda>c. case c of None \<Rightarrow> [] | Some v \<Rightarrow> [v]) cells)"

text \<open>
  \<^verbatim>\<open>df[df['source_type'] == label][metric].dropna()\<close>: the values of the metric
  in the rows with that label.
\<close>

definition group_data :: "string option list \<Rightarrow> real option list \<Rightarrow> string \<Rightarrow> real list" where
  "group_data labels cells label =
     dropna (map snd (filter (\<lambda>row. fst row = Some label) (zip labels cells)))"

section \<open>Preparing an uploaded table (modules/data_validator.py)\<close>

text \<open>The mean of the values of a row that are present, as \<^verbatim>\<open>mean(axis=1, skipna=True)\<close> computes it.\<close>

definition nanmean :: "real option list \<Rightarrow> real option" where
  "nanmean cells =
     (let vs = dropna cells in if vs = [] then None else Some (sum_list vs / real (length vs)))"

fun row_means ::
  "real option list \<Rightarrow> real option list \<Rightarrow> real option list \<Rightarrow> real option list
     \<Rightarrow> real option list" where
  "row_means (g # gs) (s # ss) (f # fs) (a # as) = nanmean [g, s, f, a] # row_means gs ss fs as"
| "row_means gs ss fs as = []"

text \<open>\<^verbatim>\<open>series.astype(str)\<close> on a column of strings: a missing value becomes the string nan.\<close>

definition astype_str :: "string option list \<Rightarrow> string option list" where
  "astype_str cells = map (\<lambda>c. case c of None \<Rightarrow> Some ''nan'' | Some s \<Rightarrow> Some s) cells"

fun astype_str_cols ::
  "string list \<Rightarrow> (string \<times> string option list) list \<Rightarrow> (string \<times> string option list) list" where
  "astype_str_cols names [] = []"
| "astype_str_cols names ((name, cells) # rest) =
     (if name \<in> set names then (name, astype_str cells) else (name, cells))
     # astype_str_cols names rest"

datatype py_error = KeyError

text \<open>
  \<^verbatim>\<open>prepare_dataframe_for_analysis\<close>. Selecting the four score columns raises
  KeyError when one is missing. \<^verbatim>\<open>pd.to_numeric\<close> leaves a column of floats as
  it is.
\<close>

definition prepare_dataframe_for_analysis :: "dataframe \<Rightarrow> py_error + dataframe" where
  "prepare_dataframe_for_analysis df =
     (let with_mean =
        (if ''mean_readability'' \<notin> set (columns df)
         then (case (float_col df ''GFI'', float_col df ''SMOG'',
                     float_col df ''FKG'', float_col df ''ARI'') of
                 (Some g, Some s, Some f, Some a) \<Rightarrow>
                   Inr (df\<lparr> float_cols :=
                              float_cols df @ [(''mean_readability'', row_means g s f a)] \<rparr>)
               | _ \<Rightarrow> Inl KeyError)
         else Inr df)
      in case with_mean of
           Inl e \<Rightarrow> Inl e
         | Inr df_prepared \<Rightarrow>
             Inr (df_prepared\<lparr> text_cols :=
                    astype_str_cols [''url'', ''domain'', ''source_type''] (text_cols df_prepared) \<rparr>))"

text \<open>
  An exported table of one row whose four scores were corrected to 10 by hand
  while the exported mean, 20, was left in place; and the same table without
  the column of means.
\<close>

definition edited_table :: dataframe where
  "edited_table =
     \<lparr> float_cols = [(''rank'', [Some 1]), (''GFI'', [Some 10]), (''SMOG'', [Some 10]),
                     (''FKG'', [Some 10]), (''ARI'', [Some 10]),
                     (''mean_readability'', [Some 20])],
       text_cols = [(''url'', [Some ''https://a.example/'']), (''domain'', [Some ''a.example'']),
                    (''source_type'', [Some ''Private''])] \<rparr>"

definition table_without_mean :: dataframe where
  "table_without_mean =
     \<lparr> float_cols = [(''rank'', [Some 1]), (''GFI'', [Some 10]), (''SMOG'', [None]),
                     (''FKG'', [Some 14]), (''ARI'', [Some 12])],
       text_cols = [(''url'', [Some ''https://a.example/'']), (''domain'', [Some ''a.example'']),
                    (''source_type'', [Some ''Private''])] \<rparr>"

section \<open>Statistical comparison (modules/statistics.py)\<close>

text \<open>
  The three tests belong to \<^verbatim>\<open>scipy.stats\<close>: each is a parameter that returns
  its statistic and its p-value or raises. \<open>mannwhitneyu\<close> stands for the call
  with \<^verbatim>\<open>alternative='two-sided'\<close>. A group is the list of its values, which
  \<^verbatim>\<open>dropna\<close> has freed of missing ones.
\<close>

record scipy_stats =
  shapiro :: "real list \<Rightarrow> exn + npfloat \<times> npfloat"
  ttest_ind :: "real list \<Rightarrow> real list \<Rightarrow> exn + npfloat \<times> npfloat"
  mannwhitneyu :: "real list \<Rightarrow> real list \<Rightarrow> exn + npfloat \<times> npfloat"

text \<open>The mean and the sample variance (one degree of freedom removed) of a list of reals.\<close>

definition mean_of :: "real list \<Rightarrow> real" where
  "mean_of xs = sum_list xs / real (length xs)"

definition variance_of :: "real list \<Rightarrow> real" where
  "variance_of xs = sum_list (map (\<lambda>x. (x - mean_of xs)\<^sup>2) xs) / (real (length xs) - 1)"

text \<open>
  \<^verbatim>\<open>series.mean()\<close> and \<^verbatim>\<open>series.var()\<close>: NaN for a series too short to have one.
\<close>

definition series_mean :: "real list \<Rightarrow> npfloat" where
  "series_mean xs = (if xs = [] then NaN else Fin (mean_of xs))"

definition series_var :: "real list \<Rightarrow> npfloat" where
  "series_var xs = (if length xs < 2 then NaN else Fin (variance_of xs))"

record normality =
  norm_statistic :: "npfloat option"
  norm_p_value :: "npfloat option"
  is_normal :: bool
  norm_note :: "string option"
  norm_error :: "string option"

definition test_normality :: "scipy_stats \<Rightarrow> real list \<Rightarrow> normality" where
  "test_normality lib data =
     (if length data < 3
      then \<lparr> norm_statistic = None, norm_p_value = None, is_normal = False,
             norm_note = Some ''Sample size too small for test'', norm_error = None \<rparr>
      else
       (case shapiro lib data of
          Inr (statistic, p_value) \<Rightarrow>
            \<lparr> norm_statistic = Some statistic, norm_p_value = Some p_value,
              is_normal = np_less (Fin 0.05) p_value,
              norm_note = None, norm_error = None \<rparr>
        | Inl e \<Rightarrow>
            \<lparr> norm_statistic = None, norm_p_value = None, is_normal = False,
              norm_note = None, norm_error = Some e \<rparr>))"

text \<open>
  \<^verbatim>\<open>cohens_d\<close>. With fewer than two values in a group its variance is NaN, and
  so is all that is computed from it; otherwise every operand is finite and
  only the last division can leave the reals.
\<close>

definition cohens_d :: "real list \<Rightarrow> real list \<Rightarrow> npfloat" where
  "cohens_d group1 group2 =
     (let n1 = real (length group1); n2 = real (length group2)
      in case (series_var group1, series_var group2) of
           (Fin var1, Fin var2) \<Rightarrow>
             (let pooled_std = sqrt (((n1 - 1) * var1 + (n2 - 1) * var2) / (n1 + n2 - 2))
              in np_div (mean_of group1 - mean_of group2) pooled_std)
         | _ \<Rightarrow> NaN)"

text \<open>\<^verbatim>\<open>rank_biserial\<close>: \<^verbatim>\<open>1 - (2 * u_statistic) / (n1 * n2)\<close>, a numpy float divided by an integer.\<close>

definition rank_biserial :: "real list \<Rightarrow> real list \<Rightarrow> npfloat \<Rightarrow> npfloat" where
  "rank_biserial group1 group2 u_statistic =
     (let n1 = length group1; n2 = length group2
      in case u_statistic of
           Fin u \<Rightarrow> one_minus (np_div (2 * u) (real (n1 * n2)))
         | PosInf \<Rightarrow> NegInf
         | NegInf \<Rightarrow> PosInf
         | NaN \<Rightarrow> NaN)"

text \<open>
  The result of \<^verbatim>\<open>compare_groups\<close>: the dictionary with the single key
  \<^verbatim>\<open>error\<close>, or the full comparison. Its \<^verbatim>\<open>interpretation\<close>, a sentence formatted
  from the other entries, is left out, and so is the argument \<^verbatim>\<open>metric_name\<close>,
  which the body never reads.
\<close>

record comparison =
  test_used :: string
  statistic :: npfloat
  p_value :: npfloat
  significant :: bool
  effect_size :: npfloat
  group1_mean :: npfloat
  group2_mean :: npfloat
  direction :: string
  group1_normal :: bool
  group2_normal :: bool

datatype comparison_result = Error_entry exn | Comparison comparison

text \<open>
  The end of \<^verbatim>\<open>compare_groups\<close>, common to both tests: the significance, the
  direction of the difference and the dictionary that is returned.
\<close>

definition report ::
  "config \<Rightarrow> real list \<Rightarrow> real list \<Rightarrow> normality \<Rightarrow> normality \<Rightarrow> string \<Rightarrow> npfloat \<Rightarrow> npfloat
     \<Rightarrow> npfloat \<Rightarrow> comparison" where
  "report cfg group1 group2 norm1 norm2 test_name stat p effect =
     (let mean1 = series_mean group1; mean2 = series_mean group2
      in \<lparr> test_used = test_name, statistic = stat, p_value = p,
           significant = np_less p (Fin (SIGNIFICANCE_LEVEL cfg)),
           effect_size = effect, group1_mean = mean1, group2_mean = mean2,
           direction = (if np_less mean1 mean2 then ''Institutional < Private''
                        else ''Institutional > Private''),
           group1_normal = is_normal norm1, group2_normal = is_normal norm2 \<rparr>)"

definition compare_groups :: "config \<Rightarrow> scipy_stats \<Rightarrow> real list \<Rightarrow> real list \<Rightarrow> comparison_result" where
  "compare_groups cfg lib group1 group2 =
     (let norm1 = test_normality lib group1; norm2 = test_normality lib group2
      in if is_normal norm1 \<and> is_normal norm2
         then (case ttest_ind lib group1 group2 of
                 Inl e \<Rightarrow> Error_entry e
               | Inr (stat, p) \<Rightarrow>
                   Comparison (report cfg group1 group2 norm1 norm2 ''Independent t-test''
                                 stat p (cohens_d group1 group2)))
         else (case mannwhitneyu lib group1 group2 of
                 Inl e \<Rightarrow> Error_entry e
               | Inr (stat, p) \<Rightarrow>
                   Comparison (report cfg group1 group2 norm1 norm2 ''Mann-Whitney U test''
                                 stat p (rank_biserial group1 group2 stat))))"

text \<open>
  \<^verbatim>\<open>perform_statistical_analysis\<close>, its last loop: the comparison of the two
  groups for each metric, stored under the metric's name; the result is the
  entry \<^verbatim>\<open>comparisons\<close> of the dictionary returned, in the order of insertion.
  The entries \<^verbatim>\<open>overall\<close>, \<^verbatim>\<open>descriptive\<close> and \<^verbatim>\<open>normality\<close>, which the earlier
  loops fill with descriptive numbers and normality records, are not
  modelled; on columns of floats those loops raise nothing and write nothing
  that the last loop reads.
\<close>

definition metric_names :: "string list" where
  "metric_names = [''GFI'', ''SMOG'', ''FKG'', ''ARI'', ''mean_readability'']"

fun comparisons_loop ::
  "config \<Rightarrow> scipy_stats \<Rightarrow> dataframe \<Rightarrow> string option list \<Rightarrow> string list
     \<Rightarrow> (string \<times> comparison_result) list" where
  "comparisons_loop cfg lib df labels [] = []"
| "comparisons_loop cfg lib df labels (metric # rest) =
     (case float_col df metric of
        None \<Rightarrow> comparisons_loop cfg lib df labels rest
      | Some cells \<Rightarrow>
         (let institutional = group_data labels cells ''Institutional'';
              private = group_data labels cells ''Private''
          in if length institutional > 0 \<and> length private > 0
             then (metric, compare_groups cfg lib institutional private)
                  # comparisons_loop cfg lib df labels rest
             else comparisons_loop cfg lib df labels rest))"

definition perform_statistical_analysis ::
  "config \<Rightarrow> scipy_stats \<Rightarrow> dataframe \<Rightarrow> (string \<times> comparison_result) list" where
  "perform_statistical_analysis cfg lib df =
     (case text_col df ''source_type'' of
        None \<Rightarrow> []
      | Some labels \<Rightarrow> comparisons_loop cfg lib df labels metric_names)"

text \<open>The test that the normality verdicts select for two groups.\<close>

definition selected_test :: "scipy_stats \<Rightarrow> real list \<Rightarrow> real list \<Rightarrow> exn + npfloat \<times> npfloat" where
  "selected_test lib group1 group2 =
     (if is_normal (test_normality lib group1) \<and> is_normal (test_normality lib group2)
      then ttest_ind lib group1 group2
      else mannwhitneyu lib group1 group2)"

text \<open>
  Stand-ins for the library. \<open>stats_example\<close> finds every sample of three or
  more normal and gives fixed numbers. \<open>stats_degenerate\<close> is a rank-sum test
  that refuses samples whose values are all the same, as scipy's did before
  version 1.7.
\<close>

definition stats_example :: scipy_stats where
  "stats_example =
     \<lparr> shapiro = (\<lambda>xs. Inr (Fin 0.97, Fin 0.61)),
       ttest_ind = (\<lambda>xs ys. Inr (Fin (-1.5), Fin 0.21)),
       mannwhitneyu = (\<lambda>xs ys. Inr (Fin 1, Fin 0.04)) \<rparr>"

definition stats_degenerate :: scipy_stats where
  "stats_degenerate =
     \<lparr> shapiro = (\<lambda>xs. Inr (Fin 0.97, Fin 0.61)),
       ttest_ind = (\<lambda>xs ys. Inr (Fin (-1.5), Fin 0.21)),
       mannwhitneyu = (\<lambda>xs ys. if length (remdups (xs @ ys)) \<le> 1
                               then Inl ''All numbers are identical in mannwhitneyu''
                               else Inr (Fin 1, Fin 0.04)) \<rparr>"

text \<open>A table of four pages: GFI is constant, SMOG is not.\<close>

definition small_table :: dataframe where
  "small_table =
     \<lparr> float_cols = [(''GFI'', [Some 9, Some 9, Some 9, Some 9]),
                     (''SMOG'', [Some 8, Some 10, Some 11, Some 13])],
       text_cols = [(''source_type'', [Some ''Institutional'', Some ''Institutional'',
                                      Some ''Private'', Some ''Private''])] \<rparr>"

text \<open>
  The entry of one metric as the specification has it: determined by the
  metric's own column and the labels, present when both groups have values.
\<close>

definition comparison_entry ::
  "config \<Rightarrow> scipy_stats \<Rightarrow> dataframe \<Rightarrow> string option list \<Rightarrow> string
     \<Rightarrow> comparison_result option" where
  "comparison_entry cfg lib df labels metric =
     (case float_col df metric of
        None \<Rightarrow> None
      | Some cells \<Rightarrow>
          if group_data labels cells ''Institutional'' \<noteq> []
             \<and> group_data labels cells ''Private'' \<noteq> []
          then Some (compare_groups cfg lib (group_data labels cells ''Institutional'')
                       (group_data labels cells ''Private''))
          else None)"

section \<open>Properties of the classifier\<close>

lemma domain_loop_once:
  "domain_loop d doms c =
     c + (if list_ex (\<lambda>inst. endswith d inst \<or> contains inst d) doms then 3 else 0)"
  by (induction doms) auto

lemma pattern_loop_once:
  "pattern_loop u pats c =
     c + (if list_ex (\<lambda>pattern. contains (lower pattern) u) pats then 2 else 0)"
  by (induction pats) auto

lemma keyword_loop_once:
  "keyword_loop t kws c =
     c + (if list_ex (\<lambda>keyword. contains (lower keyword) t) kws then 1 else 0)"
  by (induction kws) auto

lemma lower_Nil_iff: "lower s = [] \<longleftrightarrow> s = []"
  by (simp add: lower_def)

lemma classify_source_confidence:
  "snd (classify_source cfg netloc u t d) =
     (if domain_tier cfg netloc u d then 3 else 0)
     + (if pattern_tier cfg u then 2 else 0)
     + (if keyword_tier cfg t then 1 else 0)"
  by (simp add: classify_source_def Let_def domain_loop_once pattern_loop_once
        keyword_loop_once domain_tier_def pattern_tier_def keyword_tier_def lower_Nil_iff)

lemma classify_source_label:
  "fst (classify_source cfg netloc u t d) =
     (if snd (classify_source cfg netloc u t d) \<ge> CONFIDENCE_THRESHOLD cfg
      then ''Institutional'' else ''Private'')"
  by (simp add: classify_source_def Let_def)

text \<open>
  C3. For every (url, title, domain), the confidence of \<open>classify_source\<close> is the
  sum of one +3 if the domain tier matches, one +2 if the URL pattern tier
  matches and one +1 if the title keyword tier matches, whatever the number of
  matching entries inside a tier; so it is one of 0 to 6. The label is
  Institutional exactly when the confidence reaches the configured threshold
  and Private otherwise; with a positive threshold, as the default 3,
  confidence 0 gives Private.
\<close>

theorem classify_source_additive:
  "classify_source cfg netloc u t d = (label, confidence) \<Longrightarrow>
     confidence = (if domain_tier cfg netloc u d then 3 else 0)
                  + (if pattern_tier cfg u then 2 else 0)
                  + (if keyword_tier cfg t then 1 else 0)
     \<and> confidence \<in> {0, 1, 2, 3, 4, 5, 6}
     \<and> (label = ''Institutional'' \<longleftrightarrow> confidence \<ge> CONFIDENCE_THRESHOLD cfg)
     \<and> (label \<noteq> ''Institutional'' \<longrightarrow> label = ''Private'')
     \<and> (0 < CONFIDENCE_THRESHOLD cfg \<and> confidence = 0 \<longrightarrow> label = ''Private'')
     \<and> CONFIDENCE_THRESHOLD default_config = 3"
proof -
  assume a: "classify_source cfg netloc u t d = (label, confidence)"
  have c: "confidence = (if domain_tier cfg netloc u d then 3 else 0)
                  + (if pattern_tier cfg u then 2 else 0)
                  + (if keyword_tier cfg t then 1 else 0)"
    using classify_source_confidence [of cfg netloc u t d] a by simp
  have l: "label = (if confidence \<ge> CONFIDENCE_THRESHOLD cfg then ''Institutional'' else ''Private'')"
    using classify_source_label [of cfg netloc u t d] a by simp
  have r: "confidence \<in> {0, 1, 2, 3, 4, 5, 6}"
    unfolding c by simp
  have t: "CONFIDENCE_THRESHOLD default_config = 3"
    by (simp add: default_config_def)
  show ?thesis
    using c l r t by auto
qed

theorem classify_source_additive_witness:
  "classify_source default_config no_netloc ''https://www.cdc.gov/x'' ''CDC Guidance'' ''cdc.gov''
     = (''Institutional'', 4)
   \<and> (4::int) \<in> {0, 1, 2, 3, 4, 5, 6}
   \<and> (4::int) \<ge> CONFIDENCE_THRESHOLD default_config
   \<and> classify_source default_config no_netloc ''https://example.org/blog'' ''My blog'' ''example.org''
     = (''Private'', 0)
   \<and> 0 < CONFIDENCE_THRESHOLD default_config"
proof -
  have h4: "classify_source default_config no_netloc ''https://www.cdc.gov/x'' ''CDC Guidance''
              ''cdc.gov'' = (''Institutional'', 4)"
    by code_simp
  have h0: "classify_source default_config no_netloc ''https://example.org/blog'' ''My blog''
              ''example.org'' = (''Private'', 0)"
    by code_simp
  show ?thesis
    using h4 h0 classify_source_additive [OF h4] classify_source_additive [OF h0] by simp
qed

subsection \<open>The ambiguity query\<close>

lemma get_ambiguous_classifications_filter:
  "get_ambiguous_classifications netloc ds threshold =
     map (ambiguous_entry netloc)
       (filter (\<lambda>data. recorded_confidence data \<le> threshold \<and> recorded_confidence data > 0) ds)"
  by (induction ds) (simp_all add: Let_def)

text \<open>
  C4. The claim is that the ambiguity query flags a record exactly when its
  recorded confidence is below 2 and above 0, that is, equal to 1; the
  docstring of \<^verbatim>\<open>get_ambiguous_classifications\<close> says the same ("classifications
  below this are ambiguous"). The code tests \<^verbatim>\<open>confidence <= threshold\<close>: with the
  default threshold 2, a record of confidence 2, as \<open>classify_source\<close> gives a
  URL whose only evidence is a path pattern, is flagged although 2 is not below 2.
\<close>

theorem get_ambiguous_classifications_flags_two:
  "classify_source default_config no_netloc ''https://example.com/hospital/about'' ''About us''
     ''example.com'' = (''Private'', 2)
   \<and> get_ambiguous_classifications no_netloc
         [\<lparr> url = Some ''https://example.com/hospital/about'', title = Some ''About us'',
            domain = Some ''example.com'', source_type = Some ''Private'',
            classification_confidence = Some 2 \<rparr>] default_ambiguity_threshold
       = [\<lparr> amb_url = Some ''https://example.com/hospital/about'', amb_domain = ''example.com'',
            amb_classification = Some ''Private'', amb_confidence = 2 \<rparr>]
   \<and> \<not> ((2::int) < default_ambiguity_threshold)"
proof -
  have "classify_source default_config no_netloc ''https://example.com/hospital/about''
          ''About us'' ''example.com'' = (''Private'', 2)"
    by code_simp
  then show ?thesis
    by (simp add: Let_def recorded_confidence_def ambiguous_entry_def default_ambiguity_threshold_def)
qed

section \<open>Properties of the scraper\<close>

subsection \<open>The validation boundary\<close>

lemma validate_content_too_short:
  "word_count text < MIN_WORD_COUNT cfg \<Longrightarrow> fst (validate_content cfg text) = False"
  by (simp add: validate_content_def Let_def)

lemma validate_content_in_bounds:
  "text \<noteq> [] \<Longrightarrow> MIN_WORD_COUNT cfg \<le> word_count text \<Longrightarrow>
     word_count text \<le> MAX_WORD_COUNT cfg \<Longrightarrow> validate_content cfg text = (True, [])"
  by (simp add: validate_content_def Let_def)

lemma validate_content_no_short_issue:
  "MIN_WORD_COUNT cfg \<le> word_count text \<Longrightarrow>
     Text_too_short n \<notin> set (snd (validate_content cfg text))"
  by (simp add: validate_content_def Let_def)

lemma scrape_webpage_validated:
  assumes "fetch u = Response 200 (Inr soup)"
    and "extract_main_content cfg soup = Some content" and "content \<noteq> []"
  shows "res_status (scrape_webpage cfg lib fetch u) =
           (if fst (validate_content cfg (clean_text lib content)) then Success
            else Insufficient_text)"
  using assms by (simp add: scrape_webpage_def Let_def split: prod.splits)

text \<open>
  C5. A cleaned text of exactly \<open>MIN_WORD_COUNT - 1\<close> words fails validation, and
  the record of the page it was cleaned from has the status insufficient_text.
  A cleaned text of exactly \<open>MIN_WORD_COUNT\<close> words, and at most
  \<open>MAX_WORD_COUNT\<close>, passes the minimum gate: no too-short issue is reported,
  and, not being empty, it is valid and the record's status is success.
\<close>

theorem validate_content_boundary:
  "(word_count text = MIN_WORD_COUNT cfg - 1 \<longrightarrow>
      fst (validate_content cfg text) = False
      \<and> (fetch u = Response 200 (Inr soup) \<and> extract_main_content cfg soup = Some content
           \<and> content \<noteq> [] \<and> clean_text lib content = text
         \<longrightarrow> res_status (scrape_webpage cfg lib fetch u) = Insufficient_text))
   \<and> (word_count text = MIN_WORD_COUNT cfg \<and> word_count text \<le> MAX_WORD_COUNT cfg \<longrightarrow>
      Text_too_short (word_count text) \<notin> set (snd (validate_content cfg text))
      \<and> (text \<noteq> [] \<longrightarrow> validate_content cfg text = (True, []))
      \<and> (text \<noteq> [] \<and> fetch u = Response 200 (Inr soup)
           \<and> extract_main_content cfg soup = Some content
           \<and> content \<noteq> [] \<and> clean_text lib content = text
         \<longrightarrow> res_status (scrape_webpage cfg lib fetch u) = Success))"
proof (intro conjI impI)
  assume "word_count text = MIN_WORD_COUNT cfg - 1"
  then show "fst (validate_content cfg text) = False"
    by (simp add: validate_content_too_short)
next
  assume "word_count text = MIN_WORD_COUNT cfg - 1"
    and "fetch u = Response 200 (Inr soup) \<and> extract_main_content cfg soup = Some content
           \<and> content \<noteq> [] \<and> clean_text lib content = text"
  then show "res_status (scrape_webpage cfg lib fetch u) = Insufficient_text"
    by (simp add: scrape_webpage_validated validate_content_too_short)
next
  assume "word_count text = MIN_WORD_COUNT cfg \<and> word_count text \<le> MAX_WORD_COUNT cfg"
  then show "Text_too_short (word_count text) \<notin> set (snd (validate_content cfg text))"
    by (simp add: validate_content_no_short_issue)
next
  assume "word_count text = MIN_WORD_COUNT cfg \<and> word_count text \<le> MAX_WORD_COUNT cfg"
    and "text \<noteq> []"
  then show "validate_content cfg text = (True, [])"
    by (simp add: validate_content_in_bounds)
next
  assume "word_count text = MIN_WORD_COUNT cfg \<and> word_count text \<le> MAX_WORD_COUNT cfg"
    and "text \<noteq> [] \<and> fetch u = Response 200 (Inr soup)
           \<and> extract_main_content cfg soup = Some content
           \<and> content \<noteq> [] \<and> clean_text lib content = text"
  then show "res_status (scrape_webpage cfg lib fetch u) = Success"
    by (simp add: scrape_webpage_validated validate_content_in_bounds)
qed

lemma words_49_count: "word_count (words 49) = 49"
  by code_simp

lemma words_50_count: "word_count (words 50) = 50"
  by code_simp

lemma page_of_49_extract: "extract_main_content default_config page_of_49 = Some (words 49)"
  by code_simp

lemma page_of_50_extract: "extract_main_content default_config page_of_50 = Some (words 50)"
  by code_simp

lemma words_49_clean: "clean_text plain_textlib (words 49) = words 49"
  by code_simp

lemma words_50_clean: "clean_text plain_textlib (words 50) = words 50"
  by code_simp

lemma words_49_nonempty: "words 49 \<noteq> []"
  by code_simp

lemma words_50_nonempty: "words 50 \<noteq> []"
  by code_simp

theorem validate_content_boundary_witness:
  "word_count (words 49) = MIN_WORD_COUNT default_config - 1
   \<and> fst (validate_content default_config (words 49)) = False
   \<and> res_status (scrape_webpage default_config plain_textlib (serve page_of_49) ''http://a.example/'')
       = Insufficient_text
   \<and> word_count (words 50) = MIN_WORD_COUNT default_config
   \<and> word_count (words 50) \<le> MAX_WORD_COUNT default_config
   \<and> validate_content default_config (words 50) = (True, [])
   \<and> res_status (scrape_webpage default_config plain_textlib (serve page_of_50) ''http://a.example/'')
       = Success"
proof -
  have m: "MIN_WORD_COUNT default_config = 50" "MAX_WORD_COUNT default_config = 50000"
    by (simp_all add: default_config_def)
  have s49: "serve page_of_49 ''http://a.example/'' = Response 200 (Inr page_of_49)"
    and s50: "serve page_of_50 ''http://a.example/'' = Response 200 (Inr page_of_50)"
    by (simp_all add: serve_def)
  note low = validate_content_boundary [of "words 49" default_config "serve page_of_49"
      "''http://a.example/''" page_of_49 "words 49" plain_textlib]
  note high = validate_content_boundary [of "words 50" default_config "serve page_of_50"
      "''http://a.example/''" page_of_50 "words 50" plain_textlib]
  show ?thesis
    using low high m s49 s50 words_49_count words_50_count page_of_49_extract page_of_50_extract
      words_49_clean words_50_clean words_49_nonempty words_50_nonempty
    by simp
qed

subsection \<open>The extraction cascade\<close>

lemma find_append_case:
  "List.find P (xs @ ys) = (case List.find P xs of None \<Rightarrow> List.find P ys | Some x \<Rightarrow> Some x)"
  by (induction xs) auto

lemma class_loop_find:
  "class_loop cfg es = List.find (long_enough cfg) (map (get_text '' '') es)"
  by (induction es) (auto simp: Let_def)

lemma indicator_loop_find:
  "indicator_loop cfg soup inds =
     List.find (long_enough cfg) (concat (map (indicator_candidates soup) inds))"
proof (induction inds)
  case Nil
  show ?case by simp
next
  case (Cons i inds)
  show ?case
    by (simp add: Cons.IH class_loop_find indicator_candidates_def find_append_case Let_def
          split: option.splits)
qed

text \<open>
  The function of the source is the search for the first candidate that is
  long enough, in the order of the specification, with the body text as the
  fallback.
\<close>

lemma extract_main_content_cascade:
  "extract_main_content cfg soup0 =
     (case List.find (long_enough cfg) (cascade_candidates (decompose_unwanted soup0)) of
        Some text \<Rightarrow> Some text
      | None \<Rightarrow> fallback (decompose_unwanted soup0))"
  by (simp add: extract_main_content_def cascade_candidates_def article_candidates_def
        main_candidates_def paragraph_candidates_def fallback_def indicator_loop_find
        find_append_case Let_def split: option.splits)

lemma find_first_accepted:
  "long_enough cfg text \<Longrightarrow> \<not> list_ex (long_enough cfg) before \<Longrightarrow>
     List.find (long_enough cfg) (before @ text # after) = Some text"
  by (induction before) auto

lemma find_none_accepted:
  "\<not> list_ex (long_enough cfg) cands \<Longrightarrow> List.find (long_enough cfg) cands = None"
  by (induction cands) auto

text \<open>
  C7, as amended. The candidates are examined in the order article container,
  main container, content-indicator class and id matches, joined body
  paragraphs. A candidate is accepted when its word count is strictly greater
  than \<open>MIN_WORD_COUNT\<close>. The extractor returns the first accepted candidate, and
  what comes after it has no part in the result: two documents whose
  candidates agree up to that one give the same text. When no candidate is
  accepted the result is the fallback, all the text of the body.
\<close>

theorem extract_main_content_short_circuit:
  "(long_enough cfg text \<longleftrightarrow> word_count text > MIN_WORD_COUNT cfg)
   \<and> (cascade_candidates (decompose_unwanted soup0) = before @ text # after
        \<and> cascade_candidates (decompose_unwanted soup1) = before @ text # after'
        \<and> long_enough cfg text \<and> \<not> list_ex (long_enough cfg) before
      \<longrightarrow> extract_main_content cfg soup0 = Some text
          \<and> extract_main_content cfg soup1 = Some text)
   \<and> (\<not> list_ex (long_enough cfg) (cascade_candidates (decompose_unwanted soup0))
      \<longrightarrow> extract_main_content cfg soup0 = fallback (decompose_unwanted soup0))"
proof (intro conjI impI)
  show "long_enough cfg text \<longleftrightarrow> word_count text > MIN_WORD_COUNT cfg"
    by (simp add: long_enough_def)
next
  assume a: "cascade_candidates (decompose_unwanted soup0) = before @ text # after
        \<and> cascade_candidates (decompose_unwanted soup1) = before @ text # after'
        \<and> long_enough cfg text \<and> \<not> list_ex (long_enough cfg) before"
  then have f: "\<And>rest. List.find (long_enough cfg) (before @ text # rest) = Some text"
    by (simp add: find_first_accepted)
  show "extract_main_content cfg soup0 = Some text"
    using a f [of after] by (simp add: extract_main_content_cascade)
  show "extract_main_content cfg soup1 = Some text"
    using a f [of after'] by (simp add: extract_main_content_cascade)
next
  assume "\<not> list_ex (long_enough cfg) (cascade_candidates (decompose_unwanted soup0))"
  then show "extract_main_content cfg soup0 = fallback (decompose_unwanted soup0)"
    by (simp add: extract_main_content_cascade find_none_accepted)
qed

lemma boundary_page_candidates:
  "cascade_candidates (decompose_unwanted boundary_page) = [words 50, words 51]"
  by code_simp

lemma boundary_page_with_paragraph_candidates:
  "cascade_candidates (decompose_unwanted boundary_page_with_paragraph)
     = [words 50, words 51, words 60]"
  by code_simp

lemma words_51_accepted: "long_enough default_config (words 51)"
  by code_simp

lemma words_50_rejected: "\<not> long_enough default_config (words 50)"
  by code_simp

lemma page_of_49_candidates: "cascade_candidates (decompose_unwanted page_of_49) = []"
  by code_simp

lemma page_of_49_fallback: "fallback (decompose_unwanted page_of_49) = Some (words 49)"
  by code_simp

theorem extract_main_content_short_circuit_witness:
  "cascade_candidates (decompose_unwanted boundary_page) = [words 50] @ words 51 # []
   \<and> cascade_candidates (decompose_unwanted boundary_page_with_paragraph)
       = [words 50] @ words 51 # [words 60]
   \<and> long_enough default_config (words 51)
   \<and> \<not> list_ex (long_enough default_config) [words 50]
   \<and> extract_main_content default_config boundary_page = Some (words 51)
   \<and> extract_main_content default_config boundary_page_with_paragraph = Some (words 51)
   \<and> \<not> list_ex (long_enough default_config) (cascade_candidates (decompose_unwanted page_of_49))
   \<and> extract_main_content default_config page_of_49 = Some (words 49)"
proof -
  note first = extract_main_content_short_circuit [of default_config "words 51" boundary_page
      "[words 50]" "[]" boundary_page_with_paragraph "[words 60]"]
  note none = extract_main_content_short_circuit [of default_config "words 51" page_of_49
      "[words 50]" "[]" boundary_page_with_paragraph "[words 60]"]
  show ?thesis
    using first none boundary_page_candidates boundary_page_with_paragraph_candidates
      words_51_accepted words_50_rejected page_of_49_candidates page_of_49_fallback
    by simp
qed

text \<open>
  C7 as it was claimed fails at the boundary. On \<open>boundary_page\<close> the first
  strategy yields the article's text, whose 50 words meet the minimum of 50,
  yet the extractor goes on to the second strategy and returns the text of the
  main container.
\<close>

theorem extract_main_content_boundary_counterexample:
  "article_candidates (decompose_unwanted boundary_page) = [words 50]
   \<and> word_count (words 50) \<ge> MIN_WORD_COUNT default_config
   \<and> extract_main_content default_config boundary_page = Some (words 51)
   \<and> words 51 \<noteq> words 50"
  by code_simp

section \<open>Properties of the readability scorer\<close>

lemma validate_score_range:
  "validate_score v = Some w \<Longrightarrow> \<exists>x. w = Fin x \<and> 0 \<le> x \<and> x \<le> 30"
  by (cases v) (auto simp: validate_score_def split: if_splits)

text \<open>
  What holds whenever a dictionary is returned: each score is null or a number
  from 0 to 30, and the mean is the mean of the scores that are not null, of
  which there is at least one.
\<close>

lemma calculate_readability_returned:
  assumes "calculate_readability cfg lib text = Some m"
  shows "(\<forall>w. GFI m = Some w \<or> SMOG m = Some w \<or> FKG m = Some w \<or> ARI m = Some w
            \<longrightarrow> (\<exists>x. w = Fin x \<and> 0 \<le> x \<and> x \<le> 30))
         \<and> valid_scores [GFI m, SMOG m, FKG m, ARI m] \<noteq> []
         \<and> mean_readability m = Some (np_mean (valid_scores [GFI m, SMOG m, FKG m, ARI m]))"
  using assms
  by (auto simp: calculate_readability_def Let_def
        split: if_splits sum.splits dest: validate_score_range)

text \<open>When all four scores are rejected, nothing is returned at all.\<close>

lemma calculate_readability_all_null:
  assumes "gunning_fog lib text = Inr g" and "smog_index lib text = Inr s"
    and "flesch_kincaid_grade lib text = Inr f" and "automated_readability_index lib text = Inr a"
    and "validate_score g = None" and "validate_score s = None"
    and "validate_score f = None" and "validate_score a = None"
  shows "calculate_readability cfg lib text = None"
  using assms
  by (simp add: calculate_readability_def Let_def valid_scores_def split: sum.splits)

lemma words_60_count: "word_count (words 60) = 60"
  by code_simp

lemma words_60_nonempty: "words 60 \<noteq> []"
  by code_simp

text \<open>A text of 60 words scored 12, 35, 9 and NaN: two scores are kept and their mean is 10.5.\<close>

lemma calculate_readability_mixed:
  "calculate_readability default_config textstat_mixed (words 60) =
     Some \<lparr> GFI = Some (Fin 12), SMOG = None, FKG = Some (Fin 9), ARI = None,
            m_word_count = 60, m_sentence_count = 12, m_syllable_count = 400,
            mean_readability = Some (Fin 10.5) \<rparr>"
  by (simp add: calculate_readability_def textstat_mixed_def validate_score_def
        valid_scores_def words_60_count words_60_nonempty default_config_def np_mean_def)

text \<open>
  C6. The claim is that for a valid text of at least the minimum word count
  the returned scores are null or within 0 to 30 and the returned mean is the
  mean of the scores that are not null, or null when all four are null. The
  code prepares that result, \<^verbatim>\<open>metrics['mean_readability'] = None\<close>, and then
  fails to return it: formatting the null mean for the log raises, and the
  handler returns \<^verbatim>\<open>None\<close> for the whole result. Here a text of 60 words whose
  four scores are all 35: each score is rejected, and no dictionary comes
  back.
\<close>

theorem calculate_readability_all_null_lost:
  "word_count (words 60) \<ge> MIN_WORD_COUNT default_config
   \<and> gunning_fog textstat_all_high (words 60) = Inr (Fin 35)
   \<and> smog_index textstat_all_high (words 60) = Inr (Fin 35)
   \<and> flesch_kincaid_grade textstat_all_high (words 60) = Inr (Fin 35)
   \<and> automated_readability_index textstat_all_high (words 60) = Inr (Fin 35)
   \<and> validate_score (Fin 35) = None
   \<and> calculate_readability default_config textstat_all_high (words 60) = None"
  by (simp add: calculate_readability_def textstat_all_high_def validate_score_def
        valid_scores_def words_60_count words_60_nonempty default_config_def)

section \<open>Properties of the preparation for re-analysis\<close>

lemma row_means_length:
  "length s = length g \<Longrightarrow> length f = length g \<Longrightarrow> length a = length g \<Longrightarrow>
     length (row_means g s f a) = length g"
proof (induction g s f a rule: row_means.induct)
  case (1 g gs s ss f fs a as)
  then show ?case by simp
qed simp_all

lemma row_means_nth:
  "i < length g \<Longrightarrow> length s = length g \<Longrightarrow> length f = length g \<Longrightarrow> length a = length g \<Longrightarrow>
     row_means g s f a ! i = nanmean [g ! i, s ! i, f ! i, a ! i]"
proof (induction g s f a arbitrary: i rule: row_means.induct)
  case (1 g gs s ss f fs a as)
  then show ?case by (cases i) simp_all
qed simp_all

lemma not_in_columns:
  "name \<notin> set (columns df) \<Longrightarrow> map_of (float_cols df) name = None"
  by (simp add: columns_def map_of_eq_None_iff)

lemma in_columns:
  "map_of (float_cols df) name = Some v \<Longrightarrow> name \<in> set (columns df)"
  by (auto simp: columns_def dest: map_of_SomeD intro: rev_image_eqI)

text \<open>
  C8, as amended. When the uploaded table has no column \<open>mean_readability\<close>,
  preparation adds one, and in every row it is the mean of the row's scores
  that are present (no value when none is). When the table has such a column,
  preparation keeps it as it was uploaded.
\<close>

theorem prepare_dataframe_mean_readability:
  "(''mean_readability'' \<notin> set (columns df)
      \<and> float_col df ''GFI'' = Some g \<and> float_col df ''SMOG'' = Some s
      \<and> float_col df ''FKG'' = Some f \<and> float_col df ''ARI'' = Some a
      \<and> length s = length g \<and> length f = length g \<and> length a = length g
    \<longrightarrow> (\<exists>df' means. prepare_dataframe_for_analysis df = Inr df'
           \<and> float_col df' ''mean_readability'' = Some means
           \<and> length means = length g
           \<and> (i < length g \<longrightarrow> means ! i = nanmean [g ! i, s ! i, f ! i, a ! i])
           \<and> float_col df' ''GFI'' = Some g \<and> float_col df' ''SMOG'' = Some s
           \<and> float_col df' ''FKG'' = Some f \<and> float_col df' ''ARI'' = Some a))
   \<and> (float_col df ''mean_readability'' = Some uploaded
    \<longrightarrow> (\<exists>df'. prepare_dataframe_for_analysis df = Inr df'
           \<and> float_col df' ''mean_readability'' = Some uploaded
           \<and> float_cols df' = float_cols df))"
proof (intro conjI impI)
  assume a: "''mean_readability'' \<notin> set (columns df)
      \<and> float_col df ''GFI'' = Some g \<and> float_col df ''SMOG'' = Some s
      \<and> float_col df ''FKG'' = Some f \<and> float_col df ''ARI'' = Some a
      \<and> length s = length g \<and> length f = length g \<and> length a = length g"
  let ?means = "row_means g s f a"
  let ?df' = "df\<lparr> float_cols := float_cols df @ [(''mean_readability'', ?means)],
                  text_cols := astype_str_cols [''url'', ''domain'', ''source_type''] (text_cols df) \<rparr>"
  have none: "map_of (float_cols df) ''mean_readability'' = None"
    using a by (simp add: not_in_columns)
  have p: "prepare_dataframe_for_analysis df = Inr ?df'"
    using a by (simp add: prepare_dataframe_for_analysis_def Let_def)
  have m: "float_col ?df' ''mean_readability'' = Some ?means"
    using none by (simp add: float_col_def map_add_def)
  have l: "length ?means = length g"
    using a by (simp add: row_means_length)
  have n: "i < length g \<longrightarrow> ?means ! i = nanmean [g ! i, s ! i, f ! i, a ! i]"
    using a by (simp add: row_means_nth)
  have k: "float_col ?df' ''GFI'' = Some g" "float_col ?df' ''SMOG'' = Some s"
    "float_col ?df' ''FKG'' = Some f" "float_col ?df' ''ARI'' = Some a"
    using a by (simp_all add: float_col_def)
  show "\<exists>df' means. prepare_dataframe_for_analysis df = Inr df'
           \<and> float_col df' ''mean_readability'' = Some means
           \<and> length means = length g
           \<and> (i < length g \<longrightarrow> means ! i = nanmean [g ! i, s ! i, f ! i, a ! i])
           \<and> float_col df' ''GFI'' = Some g \<and> float_col df' ''SMOG'' = Some s
           \<and> float_col df' ''FKG'' = Some f \<and> float_col df' ''ARI'' = Some a"
    using p m l n k by blast
next
  assume a: "float_col df ''mean_readability'' = Some uploaded"
  then have "''mean_readability'' \<in> set (columns df)"
    by (simp add: float_col_def in_columns)
  then have "prepare_dataframe_for_analysis df =
      Inr (df\<lparr> text_cols := astype_str_cols [''url'', ''domain'', ''source_type''] (text_cols df) \<rparr>)"
    by (simp add: prepare_dataframe_for_analysis_def Let_def)
  then show "\<exists>df'. prepare_dataframe_for_analysis df = Inr df'
           \<and> float_col df' ''mean_readability'' = Some uploaded
           \<and> float_cols df' = float_cols df"
    using a by (simp add: float_col_def)
qed

lemma table_without_mean_columns: "''mean_readability'' \<notin> set (columns table_without_mean)"
  by (simp add: table_without_mean_def columns_def)

lemma edited_table_prepared: "prepare_dataframe_for_analysis edited_table = Inr edited_table"
  by (simp add: prepare_dataframe_for_analysis_def edited_table_def columns_def astype_str_def
        Let_def)

theorem prepare_dataframe_mean_readability_witness:
  "''mean_readability'' \<notin> set (columns table_without_mean)
   \<and> float_col table_without_mean ''GFI'' = Some [Some 10]
   \<and> float_col table_without_mean ''SMOG'' = Some [None]
   \<and> float_col table_without_mean ''FKG'' = Some [Some 14]
   \<and> float_col table_without_mean ''ARI'' = Some [Some 12]
   \<and> (\<exists>df'. prepare_dataframe_for_analysis table_without_mean = Inr df'
         \<and> float_col df' ''mean_readability'' = Some [nanmean [Some 10, None, Some 14, Some 12]])
   \<and> nanmean [Some 10, None, Some 14, Some 12] = Some 12
   \<and> float_col edited_table ''mean_readability'' = Some [Some 20]
   \<and> (\<exists>df'. prepare_dataframe_for_analysis edited_table = Inr df'
         \<and> float_col df' ''mean_readability'' = Some [Some 20])"
proof -
  have c: "float_col table_without_mean ''GFI'' = Some [Some 10]"
    "float_col table_without_mean ''SMOG'' = Some [None]"
    "float_col table_without_mean ''FKG'' = Some [Some 14]"
    "float_col table_without_mean ''ARI'' = Some [Some 12]"
    by (simp_all add: float_col_def table_without_mean_def)
  have e: "float_col edited_table ''mean_readability'' = Some [Some 20]"
    by (simp add: float_col_def edited_table_def)
  have v: "nanmean [Some 10, None, Some 14, Some 12] = Some 12"
    by (simp add: nanmean_def dropna_def)
  note fresh = prepare_dataframe_mean_readability [of table_without_mean "[Some 10]" "[None]"
      "[Some 14]" "[Some 12]" 0 "[Some 20]"]
  note kept = prepare_dataframe_mean_readability [of edited_table "[Some 10]" "[None]"
      "[Some 14]" "[Some 12]" 0 "[Some 20]"]
  have f: "\<exists>df'. prepare_dataframe_for_analysis table_without_mean = Inr df'
         \<and> float_col df' ''mean_readability'' = Some [nanmean [Some 10, None, Some 14, Some 12]]"
  proof -
    from fresh c table_without_mean_columns
    obtain df' means where d: "prepare_dataframe_for_analysis table_without_mean = Inr df'"
      "float_col df' ''mean_readability'' = Some means" "length means = 1"
      "means ! 0 = nanmean [Some 10, None, Some 14, Some 12]"
      by auto
    from d(3) d(4) have "means = [nanmean [Some 10, None, Some 14, Some 12]]"
      by (cases means) simp_all
    with d(1) d(2) show ?thesis by simp
  qed
  have k: "\<exists>df'. prepare_dataframe_for_analysis edited_table = Inr df'
         \<and> float_col df' ''mean_readability'' = Some [Some 20]"
    using kept e by blast
  show ?thesis
    using c e v f k table_without_mean_columns by simp
qed

text \<open>
  C8 as it was claimed fails on \<open>edited_table\<close>: the four scores of its row are
  all 10, the uploaded mean is 20, and after preparation the mean is still 20.
\<close>

theorem prepare_dataframe_stale_counterexample:
  "float_col edited_table ''GFI'' = Some [Some 10]
   \<and> float_col edited_table ''SMOG'' = Some [Some 10]
   \<and> float_col edited_table ''FKG'' = Some [Some 10]
   \<and> float_col edited_table ''ARI'' = Some [Some 10]
   \<and> nanmean [Some 10, Some 10, Some 10, Some 10] = Some 10
   \<and> prepare_dataframe_for_analysis edited_table = Inr edited_table
   \<and> float_col edited_table ''mean_readability'' = Some [Some 20]"
proof -
  have c: "float_col edited_table ''GFI'' = Some [Some 10]"
    "float_col edited_table ''SMOG'' = Some [Some 10]"
    "float_col edited_table ''FKG'' = Some [Some 10]"
    "float_col edited_table ''ARI'' = Some [Some 10]"
    "float_col edited_table ''mean_readability'' = Some [Some 20]"
    by (simp_all add: float_col_def edited_table_def)
  have v: "nanmean [Some 10, Some 10, Some 10, Some 10] = Some 10"
    by (simp add: nanmean_def dropna_def)
  show ?thesis
    using c v edited_table_prepared by simp
qed

section \<open>Properties of the statistical comparison\<close>

subsection \<open>The normality verdict\<close>

lemma np_less_irrefl: "\<not> np_less x x"
  by (cases x) simp_all

text \<open>
  C2. The verdict comes from the Shapiro-Wilk test: a group is judged normal
  exactly when it has at least three observations and the test returns a
  p-value that is strictly greater than 0.05. With fewer than three
  observations the result is the fixed insufficient-sample record, in which the
  library has no part, and the verdict is non-normal.
\<close>

theorem test_normality_verdict:
  "(is_normal (test_normality lib data) \<longleftrightarrow>
      3 \<le> length data \<and> (\<exists>stat p. shapiro lib data = Inr (stat, p) \<and> np_less (Fin 0.05) p))
   \<and> (np_less (Fin 0.05) (Fin x) \<longleftrightarrow> 0.05 < x)
   \<and> (length data < 3 \<longrightarrow>
        test_normality lib data =
          \<lparr> norm_statistic = None, norm_p_value = None, is_normal = False,
            norm_note = Some ''Sample size too small for test'', norm_error = None \<rparr>)"
proof (intro conjI impI)
  show "is_normal (test_normality lib data) \<longleftrightarrow>
      3 \<le> length data \<and> (\<exists>stat p. shapiro lib data = Inr (stat, p) \<and> np_less (Fin 0.05) p)"
  proof (cases "length data < 3")
    case True
    then show ?thesis by (simp add: test_normality_def)
  next
    case False
    then show ?thesis
      by (cases "shapiro lib data") (auto simp: test_normality_def)
  qed
next
  show "np_less (Fin 0.05) (Fin x) \<longleftrightarrow> 0.05 < x"
    by simp
next
  assume "length data < 3"
  then show "test_normality lib data =
          \<lparr> norm_statistic = None, norm_p_value = None, is_normal = False,
            norm_note = Some ''Sample size too small for test'', norm_error = None \<rparr>"
    by (simp add: test_normality_def)
qed

theorem test_normality_verdict_witness:
  "is_normal (test_normality stats_example [1, 2, 3])
   \<and> shapiro stats_example [1, 2, 3] = Inr (Fin 0.97, Fin 0.61)
   \<and> (0.05::real) < 0.61
   \<and> length [1, 2 :: real] < 3
   \<and> \<not> is_normal (test_normality stats_example [1, 2])
   \<and> test_normality stats_example [1, 2] =
        \<lparr> norm_statistic = None, norm_p_value = None, is_normal = False,
          norm_note = Some ''Sample size too small for test'', norm_error = None \<rparr>"
proof -
  have s: "shapiro stats_example [1, 2, 3] = Inr (Fin 0.97, Fin 0.61)"
    by (simp add: stats_example_def)
  note three = test_normality_verdict [of stats_example "[1, 2, 3]" "0.61"]
  note two = test_normality_verdict [of stats_example "[1, 2]" "0.61"]
  have n: "is_normal (test_normality stats_example [1, 2, 3])"
    using three s by simp
  have r: "test_normality stats_example [1, 2] =
        \<lparr> norm_statistic = None, norm_p_value = None, is_normal = False,
          norm_note = Some ''Sample size too small for test'', norm_error = None \<rparr>"
    using two by simp
  show ?thesis
    using n s r by simp
qed

subsection \<open>The selection of the test\<close>

lemma normal_has_three: "is_normal (test_normality lib data) \<Longrightarrow> 3 \<le> length data"
  by (cases "length data < 3") (simp_all add: test_normality_def)

lemma cohens_d_formula:
  assumes "2 \<le> length group1" and "2 \<le> length group2"
  shows "cohens_d group1 group2 =
           np_div (mean_of group1 - mean_of group2)
             (sqrt (((real (length group1) - 1) * variance_of group1
                     + (real (length group2) - 1) * variance_of group2)
                    / (real (length group1) + real (length group2) - 2)))"
  using assms by (simp add: cohens_d_def series_var_def Let_def)

lemma rank_biserial_formula:
  assumes "group1 \<noteq> []" and "group2 \<noteq> []"
  shows "rank_biserial group1 group2 (Fin u) =
           Fin (1 - 2 * u / (real (length group1) * real (length group2)))"
  using assms by (simp add: rank_biserial_def np_div_def Let_def)

text \<open>
  C1, as amended. For two groups that are not empty: when both pass the
  normality check and the t-test returns, \<open>compare_groups\<close> reports the
  independent t-test with Cohen's d, the difference of the means divided by
  the pooled standard deviation; when one fails the check and the Mann-Whitney
  test returns, it reports that test with the rank-biserial correlation
  \<open>1 - 2U/(n1 n2)\<close>. When the selected test raises, the result is the error
  entry alone.
\<close>

theorem compare_groups_test_selection:
  assumes "group1 \<noteq> []" and "group2 \<noteq> []"
  shows
    "(is_normal (test_normality lib group1) \<and> is_normal (test_normality lib group2)
        \<and> ttest_ind lib group1 group2 = Inr (stat, p)
      \<longrightarrow> (\<exists>r. compare_groups cfg lib group1 group2 = Comparison r
             \<and> test_used r = ''Independent t-test''
             \<and> statistic r = stat \<and> p_value r = p
             \<and> effect_size r =
                 np_div (mean_of group1 - mean_of group2)
                   (sqrt (((real (length group1) - 1) * variance_of group1
                           + (real (length group2) - 1) * variance_of group2)
                          / (real (length group1) + real (length group2) - 2)))))
     \<and> (is_normal (test_normality lib group1) \<and> is_normal (test_normality lib group2)
        \<and> ttest_ind lib group1 group2 = Inl e
      \<longrightarrow> compare_groups cfg lib group1 group2 = Error_entry e)
     \<and> (\<not> (is_normal (test_normality lib group1) \<and> is_normal (test_normality lib group2))
        \<and> mannwhitneyu lib group1 group2 = Inr (Fin u, p)
      \<longrightarrow> (\<exists>r. compare_groups cfg lib group1 group2 = Comparison r
             \<and> test_used r = ''Mann-Whitney U test''
             \<and> statistic r = Fin u \<and> p_value r = p
             \<and> effect_size r = Fin (1 - 2 * u / (real (length group1) * real (length group2)))))
     \<and> (\<not> (is_normal (test_normality lib group1) \<and> is_normal (test_normality lib group2))
        \<and> mannwhitneyu lib group1 group2 = Inl e
      \<longrightarrow> compare_groups cfg lib group1 group2 = Error_entry e)
     \<and> (b \<noteq> 0 \<longrightarrow> np_div a b = Fin (a / b))"
proof (intro conjI impI)
  assume a: "is_normal (test_normality lib group1) \<and> is_normal (test_normality lib group2)
        \<and> ttest_ind lib group1 group2 = Inr (stat, p)"
  then have "2 \<le> length group1" "2 \<le> length group2"
    using normal_has_three [of lib group1] normal_has_three [of lib group2] by simp_all
  then have d: "cohens_d group1 group2 =
           np_div (mean_of group1 - mean_of group2)
             (sqrt (((real (length group1) - 1) * variance_of group1
                     + (real (length group2) - 1) * variance_of group2)
                    / (real (length group1) + real (length group2) - 2)))"
    by (rule cohens_d_formula)
  show "\<exists>r. compare_groups cfg lib group1 group2 = Comparison r
             \<and> test_used r = ''Independent t-test''
             \<and> statistic r = stat \<and> p_value r = p
             \<and> effect_size r =
                 np_div (mean_of group1 - mean_of group2)
                   (sqrt (((real (length group1) - 1) * variance_of group1
                           + (real (length group2) - 1) * variance_of group2)
                          / (real (length group1) + real (length group2) - 2)))"
    using a d by (simp add: compare_groups_def report_def Let_def)
next
  assume "is_normal (test_normality lib group1) \<and> is_normal (test_normality lib group2)
        \<and> ttest_ind lib group1 group2 = Inl e"
  then show "compare_groups cfg lib group1 group2 = Error_entry e"
    by (simp add: compare_groups_def Let_def)
next
  assume a: "\<not> (is_normal (test_normality lib group1) \<and> is_normal (test_normality lib group2))
        \<and> mannwhitneyu lib group1 group2 = Inr (Fin u, p)"
  have "rank_biserial group1 group2 (Fin u) =
           Fin (1 - 2 * u / (real (length group1) * real (length group2)))"
    using assms by (rule rank_biserial_formula)
  then show "\<exists>r. compare_groups cfg lib group1 group2 = Comparison r
             \<and> test_used r = ''Mann-Whitney U test''
             \<and> statistic r = Fin u \<and> p_value r = p
             \<and> effect_size r = Fin (1 - 2 * u / (real (length group1) * real (length group2)))"
    using a by (auto simp: compare_groups_def report_def Let_def)
next
  assume "\<not> (is_normal (test_normality lib group1) \<and> is_normal (test_normality lib group2))
        \<and> mannwhitneyu lib group1 group2 = Inl e"
  then show "compare_groups cfg lib group1 group2 = Error_entry e"
    by (auto simp: compare_groups_def Let_def)
next
  assume "b \<noteq> 0"
  then show "np_div a b = Fin (a / b)"
    by (simp add: np_div_def)
qed

lemma stats_example_normal_123: "is_normal (test_normality stats_example [1, 2, 3])"
  by (simp add: test_normality_def stats_example_def)

lemma stats_example_normal_237: "is_normal (test_normality stats_example [2, 3, 7])"
  by (simp add: test_normality_def stats_example_def)

lemma stats_example_not_normal_13: "\<not> is_normal (test_normality stats_example [1, 3])"
  by (simp add: test_normality_def)

theorem compare_groups_test_selection_witness:
  "[1, 2, 3 :: real] \<noteq> [] \<and> [2, 3, 7 :: real] \<noteq> []
   \<and> is_normal (test_normality stats_example [1, 2, 3])
   \<and> is_normal (test_normality stats_example [2, 3, 7])
   \<and> ttest_ind stats_example [1, 2, 3] [2, 3, 7] = Inr (Fin (- 1.5), Fin 0.21)
   \<and> (\<exists>r. compare_groups default_config stats_example [1, 2, 3] [2, 3, 7] = Comparison r
         \<and> test_used r = ''Independent t-test''
         \<and> effect_size r = Fin (- 1))
   \<and> \<not> is_normal (test_normality stats_example [1, 3])
   \<and> mannwhitneyu stats_example [1, 3] [2] = Inr (Fin 1, Fin 0.04)
   \<and> (\<exists>r. compare_groups default_config stats_example [1, 3] [2] = Comparison r
         \<and> test_used r = ''Mann-Whitney U test''
         \<and> effect_size r = Fin 0)
   \<and> \<not> is_normal (test_normality stats_degenerate [9, 9])
   \<and> mannwhitneyu stats_degenerate [9, 9] [9, 9]
        = Inl ''All numbers are identical in mannwhitneyu''
   \<and> compare_groups default_config stats_degenerate [9, 9] [9, 9]
        = Error_entry ''All numbers are identical in mannwhitneyu''"
proof -
  have t: "ttest_ind stats_example [1, 2, 3] [2, 3, 7] = Inr (Fin (- 1.5), Fin 0.21)"
    and m: "mannwhitneyu stats_example [1, 3] [2] = Inr (Fin 1, Fin 0.04)"
    by (simp_all add: stats_example_def)
  have d: "np_div (mean_of [1, 2, 3] - mean_of [2, 3, 7])
             (sqrt (((real (length [1, 2, 3 :: real]) - 1) * variance_of [1, 2, 3]
                     + (real (length [2, 3, 7 :: real]) - 1) * variance_of [2, 3, 7])
                    / (real (length [1, 2, 3 :: real]) + real (length [2, 3, 7 :: real]) - 2)))
           = Fin (- 1)"
    by (simp add: mean_of_def variance_of_def np_div_def)
  have "[1, 2, 3 :: real] \<noteq> []" and "[2, 3, 7 :: real] \<noteq> []"
    by simp_all
  note normal = compare_groups_test_selection [OF this, where lib = stats_example
      and stat = "Fin (- 1.5)" and p = "Fin 0.21" and cfg = default_config]
  have "[1, 3 :: real] \<noteq> []" and "[2 :: real] \<noteq> []"
    by simp_all
  note ranked = compare_groups_test_selection [OF this, where lib = stats_example
      and u = 1 and p = "Fin 0.04" and cfg = default_config]
  have a: "\<exists>r. compare_groups default_config stats_example [1, 2, 3] [2, 3, 7] = Comparison r
         \<and> test_used r = ''Independent t-test'' \<and> effect_size r = Fin (- 1)"
    using normal t d stats_example_normal_123 stats_example_normal_237 by auto
  have b: "\<exists>r. compare_groups default_config stats_example [1, 3] [2] = Comparison r
         \<and> test_used r = ''Mann-Whitney U test'' \<and> effect_size r = Fin 0"
    using ranked m stats_example_not_normal_13 by auto
  have n: "\<not> is_normal (test_normality stats_degenerate [9, 9])"
    by (simp add: test_normality_def)
  have w: "mannwhitneyu stats_degenerate [9, 9] [9, 9]
             = Inl ''All numbers are identical in mannwhitneyu''"
    by (simp add: stats_degenerate_def)
  have "[9, 9 :: real] \<noteq> []" and "[9, 9 :: real] \<noteq> []"
    by simp_all
  note failed = compare_groups_test_selection [OF this, where lib = stats_degenerate
      and e = "''All numbers are identical in mannwhitneyu''" and cfg = default_config]
  have c: "compare_groups default_config stats_degenerate [9, 9] [9, 9]
             = Error_entry ''All numbers are identical in mannwhitneyu''"
    using failed n w by simp
  show ?thesis
    using a b c n w t m stats_example_normal_123 stats_example_normal_237
      stats_example_not_normal_13
    by simp
qed

text \<open>
  C1 as it was claimed fails where the selected test raises. The two groups
  hold the single value 5 each; neither passes the normality check, the
  rank-sum test refuses identical values, and \<open>compare_groups\<close> reports no test
  and no effect size, only the error.
\<close>

theorem compare_groups_error_counterexample:
  "[5 :: real] \<noteq> []
   \<and> \<not> is_normal (test_normality stats_degenerate [5])
   \<and> compare_groups default_config stats_degenerate [5] [5]
       = Error_entry ''All numbers are identical in mannwhitneyu''"
  by (simp add: compare_groups_def test_normality_def stats_degenerate_def Let_def)

subsection \<open>The direction label\<close>

text \<open>
  C10. In every successful comparison whose two reported group means are
  equal, the direction is "Institutional > Private": the label is one of the
  two strict ones, and the tie falls to the second.
\<close>

theorem compare_groups_tie_direction:
  "compare_groups cfg lib group1 group2 = Comparison r \<Longrightarrow>
     group1_mean r = series_mean group1 \<and> group2_mean r = series_mean group2
     \<and> (group1_mean r = group2_mean r \<longrightarrow> direction r = ''Institutional > Private'')
     \<and> (direction r = ''Institutional < Private'' \<or> direction r = ''Institutional > Private'')"
  by (auto simp: compare_groups_def report_def Let_def np_less_irrefl
        split: if_splits sum.splits prod.splits)

lemma stats_example_tie:
  "compare_groups default_config stats_example [1, 3] [2] = Comparison
     \<lparr> test_used = ''Mann-Whitney U test'', statistic = Fin 1, p_value = Fin 0.04,
       significant = True, effect_size = Fin 0, group1_mean = Fin 2, group2_mean = Fin 2,
       direction = ''Institutional > Private'', group1_normal = False, group2_normal = False \<rparr>"
  by (simp add: compare_groups_def test_normality_def stats_example_def report_def
        series_mean_def mean_of_def default_config_def rank_biserial_def np_div_def Let_def)

theorem compare_groups_tie_direction_witness:
  "series_mean [1, 3] = Fin 2 \<and> series_mean [2] = Fin 2
   \<and> (\<exists>r. compare_groups default_config stats_example [1, 3] [2] = Comparison r
         \<and> group1_mean r = group2_mean r
         \<and> direction r = ''Institutional > Private'')"
proof -
  have m: "series_mean [1, 3] = Fin 2" "series_mean [2] = Fin 2"
    by (simp_all add: series_mean_def mean_of_def)
  from compare_groups_tie_direction [OF stats_example_tie] m
  have "\<exists>r. compare_groups default_config stats_example [1, 3] [2] = Comparison r
         \<and> group1_mean r = group2_mean r
         \<and> direction r = ''Institutional > Private''"
    using stats_example_tie by simp
  with m show ?thesis by simp
qed

subsection \<open>Failures stay with their metric\<close>

lemma comparisons_loop_step:
  "comparisons_loop cfg lib df labels (m # ms) =
     (case comparison_entry cfg lib df labels m of
        None \<Rightarrow> comparisons_loop cfg lib df labels ms
      | Some c \<Rightarrow> (m, c) # comparisons_loop cfg lib df labels ms)"
  by (simp add: comparison_entry_def Let_def split: option.splits)

text \<open>The loop of the source stores, under each metric, the entry of the specification.\<close>

lemma comparisons_loop_map_of:
  "map_of (comparisons_loop cfg lib df labels ms) m =
     (if m \<in> set ms then comparison_entry cfg lib df labels m else None)"
proof (induction ms)
  case Nil
  show ?case by simp
next
  case (Cons a ms)
  show ?case
    unfolding comparisons_loop_step
    by (cases "comparison_entry cfg lib df labels a") (simp_all add: Cons.IH)
qed

lemma comparison_entry_compared:
  assumes "float_col df m = Some cells"
    and "group_data labels cells ''Institutional'' \<noteq> []"
    and "group_data labels cells ''Private'' \<noteq> []"
  shows "comparison_entry cfg lib df labels m =
           Some (compare_groups cfg lib (group_data labels cells ''Institutional'')
                   (group_data labels cells ''Private''))"
  using assms by (simp add: comparison_entry_def)

lemma comparison_entry_local:
  "float_col df' m = float_col df m \<Longrightarrow>
     comparison_entry cfg lib df' labels m = comparison_entry cfg lib df labels m"
  by (simp add: comparison_entry_def)

lemma compare_groups_selected:
  "selected_test lib group1 group2 = Inl e \<Longrightarrow> compare_groups cfg lib group1 group2 = Error_entry e"
proof (cases "is_normal (test_normality lib group1) \<and> is_normal (test_normality lib group2)")
  case True
  moreover assume "selected_test lib group1 group2 = Inl e"
  ultimately show ?thesis
    by (simp add: selected_test_def compare_groups_def Let_def)
next
  case False
  moreover assume "selected_test lib group1 group2 = Inl e"
  ultimately have "mannwhitneyu lib group1 group2 = Inl e"
    by (simp add: selected_test_def split: if_splits)
  with False show ?thesis
    by (auto simp: compare_groups_def Let_def)
qed

text \<open>
  C9. When the test selected for one metric raises, the analysis records the
  error entry under that metric. Every other metric whose two groups are not
  empty has its comparison computed from its own column and reported; and its
  entry is the same in any table with the same labels and the same column for
  it, whatever the failing metric's column holds.
\<close>

theorem perform_statistical_analysis_isolates_failure:
  assumes "metric \<in> set metric_names"
    and "text_col df ''source_type'' = Some labels"
    and "float_col df metric = Some cells"
    and "group_data labels cells ''Institutional'' \<noteq> []"
    and "group_data labels cells ''Private'' \<noteq> []"
    and "selected_test lib (group_data labels cells ''Institutional'')
           (group_data labels cells ''Private'') = Inl e"
  shows "map_of (perform_statistical_analysis cfg lib df) metric = Some (Error_entry e)
     \<and> (other \<in> set metric_names \<and> other \<noteq> metric \<and> float_col df other = Some cells'
          \<and> group_data labels cells' ''Institutional'' \<noteq> []
          \<and> group_data labels cells' ''Private'' \<noteq> []
        \<longrightarrow> map_of (perform_statistical_analysis cfg lib df) other =
              Some (compare_groups cfg lib (group_data labels cells' ''Institutional'')
                      (group_data labels cells' ''Private'')))
     \<and> (other \<noteq> metric \<and> text_col df' ''source_type'' = Some labels
          \<and> float_col df' other = float_col df other
        \<longrightarrow> map_of (perform_statistical_analysis cfg lib df') other =
              map_of (perform_statistical_analysis cfg lib df) other)"
proof (intro conjI impI)
  have "comparison_entry cfg lib df labels metric =
          Some (compare_groups cfg lib (group_data labels cells ''Institutional'')
                  (group_data labels cells ''Private''))"
    using assms(3,4,5) by (rule comparison_entry_compared)
  then show "map_of (perform_statistical_analysis cfg lib df) metric = Some (Error_entry e)"
    using assms(1,2,6)
    by (simp add: perform_statistical_analysis_def comparisons_loop_map_of
          compare_groups_selected)
next
  assume a: "other \<in> set metric_names \<and> other \<noteq> metric \<and> float_col df other = Some cells'
          \<and> group_data labels cells' ''Institutional'' \<noteq> []
          \<and> group_data labels cells' ''Private'' \<noteq> []"
  then have "comparison_entry cfg lib df labels other =
          Some (compare_groups cfg lib (group_data labels cells' ''Institutional'')
                  (group_data labels cells' ''Private''))"
    by (simp add: comparison_entry_compared)
  then show "map_of (perform_statistical_analysis cfg lib df) other =
              Some (compare_groups cfg lib (group_data labels cells' ''Institutional'')
                      (group_data labels cells' ''Private''))"
    using assms(2) a by (simp add: perform_statistical_analysis_def comparisons_loop_map_of)
next
  assume a: "other \<noteq> metric \<and> text_col df' ''source_type'' = Some labels
          \<and> float_col df' other = float_col df other"
  then have "comparison_entry cfg lib df' labels other = comparison_entry cfg lib df labels other"
    by (intro comparison_entry_local) simp
  then show "map_of (perform_statistical_analysis cfg lib df') other =
              map_of (perform_statistical_analysis cfg lib df) other"
    using assms(2) a by (simp add: perform_statistical_analysis_def comparisons_loop_map_of)
qed

lemma small_table_smog:
  "compare_groups default_config stats_degenerate [8, 10] [11, 13] = Comparison
     \<lparr> test_used = ''Mann-Whitney U test'', statistic = Fin 1, p_value = Fin 0.04,
       significant = True, effect_size = Fin (1 / 2),
       group1_mean = Fin 9, group2_mean = Fin 12,
       direction = ''Institutional < Private'',
       group1_normal = False, group2_normal = False \<rparr>"
  by (simp add: compare_groups_def test_normality_def stats_degenerate_def report_def
        series_mean_def mean_of_def rank_biserial_def np_div_def default_config_def Let_def)

theorem perform_statistical_analysis_isolates_failure_witness:
  "''GFI'' \<in> set metric_names
   \<and> text_col small_table ''source_type''
        = Some [Some ''Institutional'', Some ''Institutional'', Some ''Private'', Some ''Private'']
   \<and> float_col small_table ''GFI'' = Some [Some 9, Some 9, Some 9, Some 9]
   \<and> selected_test stats_degenerate [9, 9] [9, 9]
        = Inl ''All numbers are identical in mannwhitneyu''
   \<and> map_of (perform_statistical_analysis default_config stats_degenerate small_table) ''GFI''
        = Some (Error_entry ''All numbers are identical in mannwhitneyu'')
   \<and> map_of (perform_statistical_analysis default_config stats_degenerate small_table) ''SMOG''
        = Some (compare_groups default_config stats_degenerate [8, 10] [11, 13])
   \<and> (\<exists>r. compare_groups default_config stats_degenerate [8, 10] [11, 13] = Comparison r)"
proof -
  let ?labels = "[Some ''Institutional'', Some ''Institutional'', Some ''Private'', Some ''Private'']"
  let ?gfi = "[Some 9, Some 9, Some 9, Some 9 :: real option]"
  let ?smog = "[Some 8, Some 10, Some 11, Some 13 :: real option]"
  have m: "''GFI'' \<in> set metric_names" "''SMOG'' \<in> set metric_names"
    by (simp_all add: metric_names_def)
  have l: "text_col small_table ''source_type'' = Some ?labels"
    by (simp add: text_col_def small_table_def)
  have c: "float_col small_table ''GFI'' = Some ?gfi" "float_col small_table ''SMOG'' = Some ?smog"
    by (simp_all add: float_col_def small_table_def)
  have g: "group_data ?labels ?gfi ''Institutional'' = [9, 9]"
    "group_data ?labels ?gfi ''Private'' = [9, 9]"
    "group_data ?labels ?smog ''Institutional'' = [8, 10]"
    "group_data ?labels ?smog ''Private'' = [11, 13]"
    by (simp_all add: group_data_def dropna_def)
  have s: "selected_test stats_degenerate [9, 9] [9, 9]
             = Inl ''All numbers are identical in mannwhitneyu''"
    by (simp add: selected_test_def test_normality_def stats_degenerate_def)
  have n: "[9, 9 :: real] \<noteq> []" "[8, 10 :: real] \<noteq> []" "[11, 13 :: real] \<noteq> []"
    by simp_all
  have p: "group_data ?labels ?gfi ''Institutional'' \<noteq> []"
    "group_data ?labels ?gfi ''Private'' \<noteq> []"
    "selected_test stats_degenerate (group_data ?labels ?gfi ''Institutional'')
       (group_data ?labels ?gfi ''Private'') = Inl ''All numbers are identical in mannwhitneyu''"
    by (simp_all only: g s) simp_all
  note isolated = perform_statistical_analysis_isolates_failure [OF m(1) l c(1) p,
      where other = "''SMOG''" and cells' = ?smog and cfg = default_config
      and df' = small_table]
  have e: "map_of (perform_statistical_analysis default_config stats_degenerate small_table)
             ''GFI'' = Some (Error_entry ''All numbers are identical in mannwhitneyu'')"
    using isolated by (rule conjunct1)
  have q: "''SMOG'' \<in> set metric_names \<and> ''SMOG'' \<noteq> ''GFI''
             \<and> float_col small_table ''SMOG'' = Some ?smog
             \<and> group_data ?labels ?smog ''Institutional'' \<noteq> []
             \<and> group_data ?labels ?smog ''Private'' \<noteq> []"
    by (simp only: g m c) simp
  have "map_of (perform_statistical_analysis default_config stats_degenerate small_table)
          ''SMOG'' = Some (compare_groups default_config stats_degenerate
             (group_data ?labels ?smog ''Institutional'') (group_data ?labels ?smog ''Private''))"
    using isolated [THEN conjunct2, THEN conjunct1] q by (rule mp)
  then have o: "map_of (perform_statistical_analysis default_config stats_degenerate small_table)
             ''SMOG'' = Some (compare_groups default_config stats_degenerate [8, 10] [11, 13])"
    by (simp only: g)
  have r: "\<exists>r. compare_groups default_config stats_degenerate [8, 10] [11, 13] = Comparison r"
    unfolding small_table_smog by simp
  show ?thesis
    by (intro conjI m(1) l c(1) s e o r)
qed

end
